theory Spec2Isabelle
  imports Complex_Main
begin

section \<open>Arrays of the numeric backend\<close>

text \<open>
  The layers and containers compute on NumPy arrays. An array is its shape and its
  elements in row-major order, as a C-contiguous NumPy array has them. Elements are
  real numbers: the rounding of float32 arithmetic is not part of this model.
\<close>

datatype error = ValueError | TypeError | ZeroDivisionError | IndexError | AxisError | AttributeError

text \<open>Sequencing of steps that may raise: the first error ends the computation.\<close>

fun ebind :: "error + 'a \<Rightarrow> ('a \<Rightarrow> error + 'b) \<Rightarrow> error + 'b" where
  "ebind (Inl e) f = Inl e"
| "ebind (Inr x) f = f x"

record 'e ndarray =
  shape :: "nat list"
  buf :: "'e list"

definition well_shaped :: "'e ndarray \<Rightarrow> bool" where
  "well_shaped a \<longleftrightarrow> length (buf a) = prod_list (shape a)"

text \<open>All multi-indices of a shape, in row-major order.\<close>

fun indices :: "nat list \<Rightarrow> nat list list" where
  "indices [] = [[]]"
| "indices (n # ns) = concat (map (\<lambda>i. map ((#) i) (indices ns)) [0..<n])"

text \<open>Row-major offset of a multi-index, starting from the offset \<open>acc\<close> of the
  enclosing block.\<close>

fun offset :: "nat \<Rightarrow> nat list \<Rightarrow> nat list \<Rightarrow> nat" where
  "offset acc (n # ns) (i # is) = offset (acc * n + i) ns is"
| "offset acc _ _ = acc"

definition elem_at :: "'e ndarray \<Rightarrow> nat list \<Rightarrow> 'e" where
  "elem_at a idx = buf a ! offset 0 (shape a) idx"

definition tabulate :: "nat list \<Rightarrow> (nat list \<Rightarrow> 'e) \<Rightarrow> 'e ndarray" where
  "tabulate s f = \<lparr>shape = s, buf = map f (indices s)\<rparr>"

text \<open>A Python number used as an operand is a 0-dimensional array.\<close>

definition scalar :: "'e \<Rightarrow> 'e ndarray" where
  "scalar c = \<lparr>shape = [], buf = [c]\<rparr>"

subsection \<open>Broadcasting\<close>

text \<open>NumPy aligns two shapes at their last axis; two extents are compatible when
  they are equal or one of them is 1. \<open>bshape\<close> works on the reversed shapes.\<close>

fun bshape :: "nat list \<Rightarrow> nat list \<Rightarrow> nat list option" where
  "bshape [] ys = Some ys"
| "bshape xs [] = Some xs"
| "bshape (x # xs) (y # ys) =
     (if x = y \<or> y = 1 then map_option ((#) x) (bshape xs ys)
      else if x = 1 then map_option ((#) y) (bshape xs ys)
      else None)"

definition broadcast_shapes :: "nat list \<Rightarrow> nat list \<Rightarrow> nat list option" where
  "broadcast_shapes s t = map_option rev (bshape (rev s) (rev t))"

text \<open>The element of \<open>a\<close> that a multi-index of the broadcast shape reads: the
  leading axes \<open>a\<close> does not have are dropped, and an axis of extent 1 is read at 0.\<close>

definition bget :: "'e ndarray \<Rightarrow> nat list \<Rightarrow> 'e" where
  "bget a idx =
     elem_at a (map2 (\<lambda>n i. if n = 1 then 0 else i) (shape a)
                (drop (length idx - length (shape a)) idx))"

definition np_binop ::
  "('a \<Rightarrow> 'b \<Rightarrow> 'c) \<Rightarrow> 'a ndarray \<Rightarrow> 'b ndarray \<Rightarrow> error + 'c ndarray" where
  "np_binop f a b =
     (case broadcast_shapes (shape a) (shape b) of
        None \<Rightarrow> Inl ValueError
      | Some s \<Rightarrow> Inr (tabulate s (\<lambda>idx. f (bget a idx) (bget b idx))))"

text \<open>An in-place operation \<open>a op= b\<close> writes into \<open>a\<close>: the broadcast shape has
  to be the shape of \<open>a\<close>.\<close>

definition np_inplace ::
  "('a \<Rightarrow> 'b \<Rightarrow> 'a) \<Rightarrow> 'a ndarray \<Rightarrow> 'b ndarray \<Rightarrow> error + 'a ndarray" where
  "np_inplace f a b =
     (case np_binop f a b of
        Inl e \<Rightarrow> Inl e
      | Inr r \<Rightarrow> if shape r = shape a then Inr r else Inl ValueError)"

subsection \<open>Axes, slices, reductions\<close>

text \<open>An axis may count from the end: \<open>-1\<close> is the last axis.\<close>

definition norm_axis :: "int \<Rightarrow> nat \<Rightarrow> nat option" where
  "norm_axis axis n =
     (if - int n \<le> axis \<and> axis < int n
      then Some (nat (if axis < 0 then axis + int n else axis)) else None)"

text \<open>\<open>a[..., st:en, ...]\<close> on axis \<open>ax\<close>, for bounds that are not negative: a
  slice is cut at the extent of the axis and is empty when \<open>st\<close> is not below \<open>en\<close>.\<close>

definition slice_axis :: "'e ndarray \<Rightarrow> nat \<Rightarrow> nat \<Rightarrow> nat \<Rightarrow> 'e ndarray" where
  "slice_axis a ax st en =
     (let n = shape a ! ax; lo = min st n; hi = max lo (min en n)
      in tabulate ((shape a)[ax := hi - lo]) (\<lambda>idx. elem_at a (idx[ax := idx ! ax + lo])))"

text \<open>A slice bound as Python reads it: a negative bound counts from the end.\<close>

definition py_bound :: "int \<Rightarrow> nat \<Rightarrow> nat" where
  "py_bound i n = (if i < 0 then nat (int n + i) else nat i)"

text \<open>\<open>numpy.concatenate\<close>: at least one array, none of them 0-dimensional, all of
  the same shape but for the extent on \<open>axis\<close>.\<close>

fun locate :: "nat list \<Rightarrow> nat \<Rightarrow> nat \<times> nat" where
  "locate [] j = (0, j)"
| "locate (e # es) j =
     (if j < e then (0, j) else (case locate es (j - e) of (k, r) \<Rightarrow> (Suc k, r)))"

definition np_concatenate :: "'e ndarray list \<Rightarrow> int \<Rightarrow> error + 'e ndarray" where
  "np_concatenate arrays axis =
     (case arrays of
        [] \<Rightarrow> Inl ValueError
      | a # rest \<Rightarrow>
         (case norm_axis axis (length (shape a)) of
            None \<Rightarrow> Inl AxisError
          | Some ax \<Rightarrow>
              if list_all (\<lambda>b. length (shape b) = length (shape a)
                                \<and> (shape b)[ax := 0] = (shape a)[ax := 0]) rest
              then Inr (tabulate ((shape a)[ax := sum_list (map (\<lambda>b. shape b ! ax) arrays)])
                     (\<lambda>idx. case locate (map (\<lambda>b. shape b ! ax) arrays) (idx ! ax) of
                              (k, r) \<Rightarrow> elem_at (arrays ! k) (idx[ax := r])))
              else Inl ValueError))"

text \<open>\<open>numpy.split\<close> at a list of indices: the pieces lie between consecutive
  entries of \<open>[0] + splits + [extent]\<close>.\<close>

definition np_split :: "'e ndarray \<Rightarrow> nat list \<Rightarrow> int \<Rightarrow> error + 'e ndarray list" where
  "np_split a splits axis =
     (case norm_axis axis (length (shape a)) of
        None \<Rightarrow> Inl IndexError
      | Some ax \<Rightarrow>
          (let div_points = [0] @ splits @ [shape a ! ax]
           in Inr (map (\<lambda>i. slice_axis a ax (div_points ! i) (div_points ! Suc i))
                       [0..<Suc (length splits)])))"

text \<open>\<open>numpy.sum(a, axis=axes)\<close> for axes counted from the front. \<open>weave\<close> puts a
  multi-index of the kept axes and one of the summed axes together again.\<close>

function weave :: "nat \<Rightarrow> nat \<Rightarrow> nat list \<Rightarrow> nat list \<Rightarrow> nat list \<Rightarrow> nat list" where
  "weave k n axes kept red =
     (if n \<le> k then []
      else if k \<in> set axes then hd red # weave (Suc k) n axes kept (tl red)
      else hd kept # weave (Suc k) n axes (tl kept) red)"
  by pat_completeness auto
termination
  by (relation "measure (\<lambda>(k, n, axes, kept, red). n - k)") auto

definition np_sum :: "real ndarray \<Rightarrow> nat list \<Rightarrow> error + real ndarray" where
  "np_sum a axes =
     (let n = length (shape a) in
      if list_ex (\<lambda>ax. n \<le> ax) axes then Inl AxisError
      else Inr (tabulate (map ((!) (shape a)) (filter (\<lambda>k. k \<notin> set axes) [0..<n]))
             (\<lambda>kept. sum_list (map (\<lambda>red. elem_at a (weave 0 n axes kept red))
                 (indices (map ((!) (shape a)) (filter (\<lambda>k. k \<in> set axes) [0..<n])))))))"

text \<open>\<open>a @ b\<close> for two matrices. The layers below multiply matrices only; the
  products NumPy defines for the other ranks are not modelled and count as a
  \<open>ValueError\<close> here.\<close>

definition np_matmul :: "real ndarray \<Rightarrow> real ndarray \<Rightarrow> error + real ndarray" where
  "np_matmul a b =
     (case (shape a, shape b) of
        ([n, k], [k', m]) \<Rightarrow>
          if k = k'
          then Inr (tabulate [n, m]
                 (\<lambda>idx. sum_list (map (\<lambda>j. elem_at a [idx ! 0, j] * elem_at b [j, idx ! 1]) [0..<k])))
          else Inl ValueError
      | _ \<Rightarrow> Inl ValueError)"

text \<open>The transpose of the last two axes; an array with fewer than two axes is its
  own transpose.\<close>

definition np_transpose :: "'e ndarray \<Rightarrow> 'e ndarray" where
  "np_transpose a =
     (let n = length (shape a) in
      if n < 2 then a
      else tabulate (take (n - 2) (shape a) @ [shape a ! (n - 1), shape a ! (n - 2)])
             (\<lambda>idx. elem_at a (take (n - 2) idx @ [idx ! (n - 1), idx ! (n - 2)])))"

section \<open>Tensor (compyute/tensors.py)\<close>

text \<open>
  A tensor owns its data and an optional gradient, itself a tensor. The type of the
  data is the backend's array type.
\<close>

datatype 'a tensor = Tensor (data: 'a) (grad: "'a tensor option")

text \<open>\<open>Tensor(data)\<close>: the class attribute \<open>grad\<close> is \<open>None\<close>.\<close>

definition new_tensor :: "'a \<Rightarrow> 'a tensor" where
  "new_tensor d = Tensor d None"

subsection \<open>The arrays of the backend\<close>

text \<open>
  An array of the backend (NumPy on the CPU, CuPy on the GPU) has a device and a dtype
  besides its values. The values are real numbers whatever the dtype: rounding, and the
  wrap-around of an integer dtype on overflow, are not modelled. The dtypes are the
  ones \<open>tensors.py\<close> imports.
\<close>

datatype device = cpu | cuda

datatype dtype = int32 | int64 | float16 | float32 | float64 | complex64

record tagged_array =
  dev :: device
  dt :: dtype
  arr :: "real ndarray"



subsection \<open>Addition\<close>






subsection \<open>Comparison and truth value\<close>

text \<open>The other operand of a comparison: a tensor or a number. The comparison is
  modelled on the values alone.\<close>

datatype 'e operand = Tens "'e ndarray tensor" | Number 'e

fun to_arraylike :: "'e operand \<Rightarrow> 'e ndarray" where
  "to_arraylike (Tens t) = data t"
| "to_arraylike (Number v) = scalar v"

definition tensor_eq :: "'e ndarray tensor \<Rightarrow> 'e operand \<Rightarrow> error + bool ndarray tensor" where
  "tensor_eq self other = map_sum id new_tensor (np_binop (=) (data self) (to_arraylike other))"

definition tensor_bool :: "'a tensor \<Rightarrow> bool" where
  "tensor_bool self = True"

subsection \<open>Device and dtype conversion\<close>

text \<open>
  \<open>to_device\<close> and \<open>to_type\<close> either return the receiver (\<open>return self\<close>) or a
  tensor object made in the call. \<open>Self\<close> stands for the first, so that the identity
  of the returned object is part of the result. The device and the dtype of a tensor
  are read off its data; the backend's \<open>get_device_from_class\<close>,
  \<open>data_to_device\<close>, \<open>dtype\<close> and \<open>astype\<close> are not in the sources and are
  parameters here.
\<close>

datatype 't returned = Self | New 't

fun resolve :: "'t \<Rightarrow> 't returned \<Rightarrow> 't" where
  "resolve self Self = self"
| "resolve self (New t) = t"

fun to_device ::
  "('a \<Rightarrow> 'd) \<Rightarrow> ('a \<Rightarrow> 'd \<Rightarrow> 'a) \<Rightarrow> 'a tensor \<Rightarrow> 'd \<Rightarrow> 'a tensor returned" where
  "to_device device_of data_to_device (Tensor d g) device =
     (if device_of d = device then Self
      else New (Tensor (data_to_device d device)
             (case g of
                None \<Rightarrow> None
              | Some gt \<Rightarrow> Some (resolve gt (to_device device_of data_to_device gt device)))))"

definition to_type ::
  "('a \<Rightarrow> 't) \<Rightarrow> ('a \<Rightarrow> 't \<Rightarrow> 'a) \<Rightarrow> 'a tensor \<Rightarrow> 't \<Rightarrow> 'a tensor returned" where
  "to_type dtype_of astype self dtype =
     (if dtype_of (data self) = dtype then Self
      else New (new_tensor (astype (data self) dtype)))"

text \<open>A backend to run the conversions on: moving or casting a tagged array changes
  the tag.\<close>

definition tagged_to_device :: "tagged_array \<Rightarrow> device \<Rightarrow> tagged_array" where
  "tagged_to_device a d = a\<lparr>dev := d\<rparr>"

definition tagged_astype :: "tagged_array \<Rightarrow> dtype \<Rightarrow> tagged_array" where
  "tagged_astype a t = a\<lparr>dt := t\<rparr>"

section \<open>Containers (compyute/nn/containers.py)\<close>

text \<open>
  The class \<open>Module\<close> is not in the sources. A child module is what a container uses
  of it: its state, its \<open>__call__\<close> and the \<open>backward\<close> its last call installed,
  each taking the state and returning the new one, or raising.
\<close>

record ('s, 'a) module =
  m_state :: 's
  m_call :: "'s \<Rightarrow> 'a \<Rightarrow> error + 'a \<times> 's"
  m_backward :: "'s \<Rightarrow> 'a \<Rightarrow> error + 'a \<times> 's"

definition apply_call :: "('s, 'a) module \<Rightarrow> 'a \<Rightarrow> error + 'a \<times> ('s, 'a) module" where
  "apply_call m x =
     (case m_call m (m_state m) x of
        Inl e \<Rightarrow> Inl e
      | Inr (y, s) \<Rightarrow> Inr (y, m\<lparr>m_state := s\<rparr>))"

definition apply_backward :: "('s, 'a) module \<Rightarrow> 'a \<Rightarrow> error + 'a \<times> ('s, 'a) module" where
  "apply_backward m dy =
     (case m_backward m (m_state m) dy of
        Inl e \<Rightarrow> Inl e
      | Inr (dx, s) \<Rightarrow> Inr (dx, m\<lparr>m_state := s\<rparr>))"

subsection \<open>SequentialContainer\<close>

text \<open>\<open>backward_set\<close> says whether a call in training mode has installed
  \<open>self.backward\<close>; \<open>set_y\<close> and \<open>set_dy\<close> of \<open>Module\<close> are taken to store
  their argument.\<close>

record ('s, 'a) sequential =
  sub_modules :: "('s, 'a) module list"
  training :: bool
  backward_set :: bool
  seq_y :: "'a option"
  seq_dy :: "'a option"

text \<open>\<open>for module in modules: x = module(x)\<close>, with the modules as the calls leave
  them.\<close>

fun call_loop :: "('s, 'a) module list \<Rightarrow> 'a \<Rightarrow> error + 'a \<times> ('s, 'a) module list" where
  "call_loop [] x = Inr (x, [])"
| "call_loop (m # ms) x =
     (case apply_call m x of
        Inl e \<Rightarrow> Inl e
      | Inr (y, m') \<Rightarrow>
          (case call_loop ms y of
             Inl e \<Rightarrow> Inl e
           | Inr (z, ms') \<Rightarrow> Inr (z, m' # ms')))"

text \<open>\<open>for module in modules: dy = module.backward(dy)\<close>, over the list it is
  given.\<close>

fun backward_loop :: "('s, 'a) module list \<Rightarrow> 'a \<Rightarrow> error + 'a \<times> ('s, 'a) module list" where
  "backward_loop [] dy = Inr (dy, [])"
| "backward_loop (m # ms) dy =
     (case apply_backward m dy of
        Inl e \<Rightarrow> Inl e
      | Inr (g, m') \<Rightarrow>
          (case backward_loop ms g of
             Inl e \<Rightarrow> Inl e
           | Inr (g', ms') \<Rightarrow> Inr (g', m' # ms')))"

definition sequential_call ::
  "('s, 'a) sequential \<Rightarrow> 'a \<Rightarrow> error + 'a \<times> ('s, 'a) sequential" where
  "sequential_call c x =
     (case call_loop (sub_modules c) x of
        Inl e \<Rightarrow> Inl e
      | Inr (y, ms) \<Rightarrow>
          Inr (y, c\<lparr>sub_modules := ms,
                    backward_set := (training c \<or> backward_set c),
                    seq_y := Some y\<rparr>))"

text \<open>The installed \<open>backward\<close> walks \<open>reversed(self.sub_modules)\<close>; the modules
  stay at their places in the list. Without an installed \<open>backward\<close> the call is
  an \<open>AttributeError\<close>.\<close>

definition sequential_backward ::
  "('s, 'a) sequential \<Rightarrow> 'a \<Rightarrow> error + 'a \<times> ('s, 'a) sequential" where
  "sequential_backward c dy =
     (if \<not> backward_set c then Inl AttributeError
      else (case backward_loop (rev (sub_modules c)) dy of
              Inl e \<Rightarrow> Inl e
            | Inr (dx, ms) \<Rightarrow> Inr (dx, c\<lparr>sub_modules := rev ms, seq_dy := Some dy\<rparr>)))"

text \<open>Chaining the children by hand, as the specification words it: the output of
  each child is the input of the next; backward runs the later children first, and
  each child consumes the gradient the later one produced.\<close>

fun manual_forward :: "('s, 'a) module list \<Rightarrow> 'a \<Rightarrow> error + 'a \<times> ('s, 'a) module list" where
  "manual_forward ms x =
     foldl (\<lambda>acc m. case acc of
                       Inl e \<Rightarrow> Inl e
                     | Inr (y, seen) \<Rightarrow>
                         (case apply_call m y of
                            Inl e \<Rightarrow> Inl e
                          | Inr (z, m') \<Rightarrow> Inr (z, seen @ [m'])))
           (Inr (x, [])) ms"

fun manual_backward :: "('s, 'a) module list \<Rightarrow> 'a \<Rightarrow> error + 'a \<times> ('s, 'a) module list" where
  "manual_backward [] dy = Inr (dy, [])"
| "manual_backward (m # ms) dy =
     (case manual_backward ms dy of
        Inl e \<Rightarrow> Inl e
      | Inr (g, ms') \<Rightarrow>
          (case apply_backward m g of
             Inl e \<Rightarrow> Inl e
           | Inr (dx, m') \<Rightarrow> Inr (dx, m' # ms')))"

subsection \<open>ParallelContainer\<close>

text \<open>\<open>par_backward\<close> holds the \<open>ys\<close> that the installed \<open>backward\<close> closes over,
  \<open>None\<close> while no call in training mode has installed one. The tensors that go
  through the container are their data arrays.\<close>

record 's parallel =
  par_modules :: "('s, real ndarray) module list"
  concat_axis :: int
  par_training :: bool
  par_backward :: "real ndarray list option"
  par_y :: "real ndarray option"
  par_dy :: "real ndarray option"

text \<open>\<open>ys = [m(x) for m in self.sub_modules]\<close>\<close>

fun call_each ::
  "('s, 'a) module list \<Rightarrow> 'a \<Rightarrow> error + 'a list \<times> ('s, 'a) module list" where
  "call_each [] x = Inr ([], [])"
| "call_each (m # ms) x =
     ebind (apply_call m x) (\<lambda>(y, m').
     ebind (call_each ms x) (\<lambda>(ys, ms'). Inr (y # ys, m' # ms')))"

definition parallel_call ::
  "'s parallel \<Rightarrow> real ndarray \<Rightarrow> error + real ndarray \<times> 's parallel" where
  "parallel_call c x =
     ebind (call_each (par_modules c) x) (\<lambda>(ys, ms).
     ebind (np_concatenate ys (concat_axis c)) (\<lambda>y.
       Inr (y, c\<lparr>par_modules := ms,
                 par_backward := (if par_training c then Some ys else par_backward c),
                 par_y := Some y\<rparr>)))"

text \<open>\<open>y.shape[self.concat_axis]\<close>: indexing the shape tuple.\<close>

definition out_len :: "int \<Rightarrow> 'e ndarray \<Rightarrow> error + nat" where
  "out_len axis y =
     (case norm_axis axis (length (shape y)) of
        None \<Rightarrow> Inl IndexError
      | Some ax \<Rightarrow> Inr (shape y ! ax))"

fun out_lens_of :: "int \<Rightarrow> 'e ndarray list \<Rightarrow> error + nat list" where
  "out_lens_of axis [] = Inr []"
| "out_lens_of axis (y # ys) =
     ebind (out_len axis y) (\<lambda>n. ebind (out_lens_of axis ys) (\<lambda>ns. Inr (n # ns)))"

text \<open>\<open>splits = [sum(out_lens[: i + 1]) for i in range(len(out_lens) - 1)]\<close>\<close>

definition splits_of :: "nat list \<Rightarrow> nat list" where
  "splits_of out_lens = map (\<lambda>i. sum_list (take (i + 1) out_lens)) [0..<length out_lens - 1]"

text \<open>\<open>dx\<close> starts as the Python float \<open>0.0\<close>. The first \<open>dx += g\<close> is NumPy's
  reflected addition of an array and a number and makes \<open>dx\<close> an array; from then on
  \<open>+=\<close> adds in place.\<close>

datatype grad_sum = PyFloat real | Array "real ndarray"

fun acc_add :: "grad_sum \<Rightarrow> real ndarray \<Rightarrow> error + grad_sum" where
  "acc_add (PyFloat c) g = map_sum id Array (np_binop (+) (scalar c) g)"
| "acc_add (Array a) g = map_sum id Array (np_inplace (+) a g)"

text \<open>\<open>for i, chunk in enumerate(chunks): dx += self.sub_modules[i].backward(chunk.data)\<close>\<close>

fun backward_chunks ::
  "nat \<Rightarrow> real ndarray list \<Rightarrow> ('s, real ndarray) module list \<Rightarrow> grad_sum
     \<Rightarrow> error + grad_sum \<times> ('s, real ndarray) module list" where
  "backward_chunks i [] ms dx = Inr (dx, ms)"
| "backward_chunks i (chunk # chunks) ms dx =
     (if length ms \<le> i then Inl IndexError
      else ebind (apply_backward (ms ! i) chunk) (\<lambda>(g, m').
           ebind (acc_add dx g) (\<lambda>dx'.
             backward_chunks (Suc i) chunks (ms[i := m']) dx')))"

text \<open>The value of \<open>dx\<close> after the gradients \<open>gs\<close> have been added to it one after the
  other.\<close>

fun acc_all :: "grad_sum \<Rightarrow> real ndarray list \<Rightarrow> error + grad_sum" where
  "acc_all dx [] = Inr dx"
| "acc_all dx (g # gs) = ebind (acc_add dx g) (\<lambda>dx'. acc_all dx' gs)"

definition parallel_backward ::
  "'s parallel \<Rightarrow> real ndarray \<Rightarrow> error + grad_sum \<times> 's parallel" where
  "parallel_backward c dy =
     (case par_backward c of
        None \<Rightarrow> Inl AttributeError
      | Some ys \<Rightarrow>
          ebind (out_lens_of (concat_axis c) ys) (\<lambda>out_lens.
          ebind (np_split dy (splits_of out_lens) (concat_axis c)) (\<lambda>chunks.
          ebind (backward_chunks 0 chunks (par_modules c) (PyFloat 0)) (\<lambda>(dx, ms).
            Inr (dx, c\<lparr>par_modules := ms, par_dy := Some dy\<rparr>)))))"

subsection \<open>An affine child\<close>

text \<open>
  Modelled from the spec: the affine module of the containers' interface is not in
  the sources (\<open>walnut/nn/layers.py\<close> has the layer of the older interface, see
  below). Specification 4.4: forward is \<open>y = x @ w + b\<close>, the bias optional;
  backward returns \<open>dx = dy @ w\<^sup>T\<close> and accumulates \<open>dw = x\<^sup>T @ dy\<close> and
  \<open>db = sum(dy, axis=batch)\<close>. Specification 4.1: accumulating into an absent
  gradient gives the incoming value, into a present one the elementwise sum.
\<close>

record affine =
  aff_w :: "real ndarray"
  aff_b :: "real ndarray option"
  aff_w_grad :: "real ndarray option"
  aff_b_grad :: "real ndarray option"
  aff_x :: "real ndarray option"

definition accumulate :: "real ndarray option \<Rightarrow> real ndarray \<Rightarrow> error + real ndarray" where
  "accumulate existing incoming =
     (case existing of None \<Rightarrow> Inr incoming | Some g \<Rightarrow> np_binop (+) g incoming)"

definition affine_call :: "affine \<Rightarrow> real ndarray \<Rightarrow> error + real ndarray \<times> affine" where
  "affine_call st x =
     ebind (np_matmul x (aff_w st)) (\<lambda>xw.
     ebind (case aff_b st of None \<Rightarrow> Inr xw | Some b \<Rightarrow> np_binop (+) xw b) (\<lambda>y.
       Inr (y, st\<lparr>aff_x := Some x\<rparr>)))"

definition affine_backward :: "affine \<Rightarrow> real ndarray \<Rightarrow> error + real ndarray \<times> affine" where
  "affine_backward st dy =
     (case aff_x st of
        None \<Rightarrow> Inl AttributeError
      | Some x \<Rightarrow>
          ebind (np_matmul dy (np_transpose (aff_w st))) (\<lambda>dx.
          ebind (np_matmul (np_transpose x) dy) (\<lambda>dw.
          ebind (accumulate (aff_w_grad st) dw) (\<lambda>wg.
          ebind (case aff_b st of
                   None \<Rightarrow> Inr (aff_b_grad st)
                 | Some b \<Rightarrow> ebind (np_sum dy [0]) (\<lambda>db.
                            map_sum id Some (accumulate (aff_b_grad st) db))) (\<lambda>bg.
            Inr (dx, st\<lparr>aff_w_grad := Some wg, aff_b_grad := bg\<rparr>))))))"

definition affine_module :: "real ndarray \<Rightarrow> real ndarray option \<Rightarrow> (affine, real ndarray) module" where
  "affine_module w b =
     \<lparr>m_state = \<lparr>aff_w = w, aff_b = b, aff_w_grad = None, aff_b_grad = None, aff_x = None\<rparr>,
      m_call = affine_call, m_backward = affine_backward\<rparr>"

section \<open>Layers (walnut/nn/layers.py)\<close>

text \<open>
  The module \<open>walnut.tensor\<close> is not in the sources. Its tensor is taken to hold a
  NumPy array \<open>data\<close> and an optional array \<open>grad\<close>, \<open>shape\<close> to be the shape of
  the data, \<open>T\<close> the transposed data, and \<open>Tensor()\<close> to hold an empty array.
\<close>

record wtensor =
  t_data :: "real ndarray"
  t_grad :: "real ndarray option"

definition empty_tensor :: wtensor where
  "empty_tensor = \<lparr>t_data = \<lparr>shape = [0], buf = []\<rparr>, t_grad = None\<rparr>"

definition full :: "nat list \<Rightarrow> 'e \<Rightarrow> 'e ndarray" where
  "full s v = tabulate s (\<lambda>_. v)"

definition zeros :: "nat list \<Rightarrow> wtensor" where
  "zeros s = \<lparr>t_data = full s 0, t_grad = None\<rparr>"

subsection \<open>Layer\<close>

text \<open>
  A layer refers to its neighbours and reads one tensor of each: the \<open>y\<close> of the
  previous layer in \<open>forward\<close>, the \<open>x\<close> of the next layer in \<open>backward\<close>. The fields
  \<open>prev_layer\<close> and \<open>succ_layer\<close> hold that tensor as the neighbour has it when the
  layer reads it, \<open>None\<close> where there is no neighbour.
\<close>

record layer =
  compiled :: bool
  mode :: string
  layer_i :: "int option"
  prev_layer :: "wtensor option"
  succ_layer :: "wtensor option"
  layer_x :: wtensor
  layer_y :: wtensor

definition Layer_compile ::
  "'z layer_scheme \<Rightarrow> int \<Rightarrow> wtensor option \<Rightarrow> wtensor option \<Rightarrow> 'z layer_scheme" where
  "Layer_compile l i prev succ =
     l\<lparr>layer_i := Some i, prev_layer := prev, succ_layer := succ, compiled := True\<rparr>"

definition Layer_forward :: "'z layer_scheme \<Rightarrow> 'z layer_scheme" where
  "Layer_forward l =
     (case prev_layer l of
        None \<Rightarrow> l
      | Some prev_y \<Rightarrow> l\<lparr>layer_x := (layer_x l)\<lparr>t_data := t_data prev_y\<rparr>\<rparr>)"

definition Layer_backward :: "'z layer_scheme \<Rightarrow> 'z layer_scheme" where
  "Layer_backward l =
     (case succ_layer l of
        None \<Rightarrow> l
      | Some succ_x \<Rightarrow> l\<lparr>layer_y := (layer_y l)\<lparr>t_grad := t_grad succ_x\<rparr>\<rparr>)"

text \<open>\<open>params\<close> lists the layer's own tensors \<open>w\<close> and \<open>b\<close>; an entry is a
  reference to the field. The activation and the normalisation of a \<open>ParamLayer\<close> are
  only handed to the initialiser and are left out.\<close>

datatype param_ref = ref_w | ref_b

record param_layer = layer +
  use_bias :: bool
  param_w :: "wtensor option"
  param_b :: "wtensor option"
  params :: "param_ref list"

subsection \<open>Linear\<close>

record linear = param_layer +
  out_channels :: int

definition Linear_forward :: "linear \<Rightarrow> error + linear" where
  "Linear_forward l0 =
     (let l = Layer_forward l0 in
      case param_w l of
        None \<Rightarrow> Inl AttributeError
      | Some w \<Rightarrow>
          ebind (np_matmul (t_data (layer_x l)) (t_data w)) (\<lambda>xw.
          ebind (if use_bias l
                 then (case param_b l of
                         None \<Rightarrow> Inl AttributeError
                       | Some b \<Rightarrow> np_binop (+) xw (t_data b))
                 else np_binop (+) xw (scalar 0)) (\<lambda>y.
            Inr (l\<lparr>layer_y := (layer_y l)\<lparr>t_data := y\<rparr>\<rparr>))))"

definition Linear_backward :: "linear \<Rightarrow> error + linear" where
  "Linear_backward l0 =
     (let l = Layer_backward l0 in
      case (param_w l, t_grad (layer_y l)) of
        (None, _) \<Rightarrow> Inl AttributeError
      | (_, None) \<Rightarrow> Inl TypeError
      | (Some w, Some dy) \<Rightarrow>
          ebind (np_matmul dy (np_transpose (t_data w))) (\<lambda>dx.
          ebind (np_matmul (np_transpose (t_data (layer_x l))) dy) (\<lambda>dw.
          (let l1 = l\<lparr>layer_x := (layer_x l)\<lparr>t_grad := Some dx\<rparr>,
                      param_w := Some (w\<lparr>t_grad := Some dw\<rparr>)\<rparr>
           in if use_bias l1
              then (case param_b l1 of
                      None \<Rightarrow> Inl AttributeError
                    | Some b \<Rightarrow>
                        ebind (np_sum dy [0]) (\<lambda>db.
                          Inr (l1\<lparr>param_b := Some (b\<lparr>t_grad := Some db\<rparr>)\<rparr>)))
              else Inr l1))))"

subsection \<open>Dropout\<close>

record dropout = layer +
  d_rate :: real
  d_map :: "real ndarray option"

definition Dropout_init :: "real \<Rightarrow> error + dropout" where
  "Dropout_init rate =
     (if rate < 0 \<or> rate \<ge> 1 then Inl ValueError
      else Inr \<lparr>compiled = False, mode = ''eval'', layer_i = None, prev_layer = None,
                succ_layer = None, layer_x = empty_tensor, layer_y = empty_tensor,
                d_rate = rate, d_map = None\<rparr>)"

text \<open>\<open>np.random.choice([0, 1], shape, p=[d_rate, 1 - d_rate])\<close> draws one of 0 and 1
  for each element. The draws are a parameter: \<open>coins k\<close> says whether the \<open>k\<close>-th
  element of this call's array is kept.\<close>

definition random_choice :: "(nat \<Rightarrow> bool) \<Rightarrow> nat list \<Rightarrow> real ndarray" where
  "random_choice coins s =
     \<lparr>shape = s, buf = map (\<lambda>k. if coins k then 1 else 0) [0..<prod_list s]\<rparr>"

definition Dropout_forward :: "(nat \<Rightarrow> bool) \<Rightarrow> dropout \<Rightarrow> error + dropout" where
  "Dropout_forward coins l0 =
     (let l = Layer_forward l0 in
      if mode l = ''eval''
      then Inr (l\<lparr>layer_y := (layer_y l)\<lparr>t_data := t_data (layer_x l)\<rparr>\<rparr>)
      else (let m = random_choice coins (shape (t_data (layer_x l)));
                l1 = l\<lparr>d_map := Some m\<rparr>
            in ebind (np_binop (*) (t_data (layer_x l1)) m) (\<lambda>xm.
               ebind (np_binop (/) xm (scalar (1 - d_rate l1))) (\<lambda>y.
                 Inr (l1\<lparr>layer_y := (layer_y l1)\<lparr>t_data := y\<rparr>\<rparr>)))))"

definition Dropout_backward :: "dropout \<Rightarrow> error + dropout" where
  "Dropout_backward l0 =
     (let l = Layer_backward l0 in
      case (t_grad (layer_y l), d_map l) of
        (None, _) \<Rightarrow> Inl TypeError
      | (_, None) \<Rightarrow> Inl TypeError
      | (Some dy, Some m) \<Rightarrow>
          ebind (np_binop (*) dy m) (\<lambda>dym.
          ebind (np_binop (/) dym (scalar (1 - d_rate l))) (\<lambda>dx.
            Inr (l\<lparr>layer_x := (layer_x l)\<lparr>t_grad := Some dx\<rparr>\<rparr>))))"

subsection \<open>Convolution\<close>

text \<open>
  A method of \<open>Convolution\<close> can raise after it has assigned to fields of the layer.
  Its model returns the layer as the call leaves it, together with the exception, if
  one was raised.
\<close>

type_synonym 's outcome = "'s \<times> error option"

definition step :: "error + 'a \<Rightarrow> 's \<Rightarrow> ('a \<Rightarrow> 's outcome) \<Rightarrow> 's outcome" where
  "step r s k = (case r of Inl e \<Rightarrow> (s, Some e) | Inr v \<Rightarrow> k v)"

text \<open>\<open>numpy.fft.fft2(a, s)\<close> and \<open>ifft2\<close>: the discrete Fourier transform over the
  last two axes, the input cut or filled with zeros to the extents \<open>s\<close>. \<open>twiddle n k\<close>
  is the \<open>n\<close>-th root of unity to the power \<open>k\<close>.\<close>

definition twiddle :: "nat \<Rightarrow> int \<Rightarrow> complex" where
  "twiddle n k = cis (2 * pi * real_of_int k / real n)"

definition fft2 :: "real ndarray \<Rightarrow> nat list \<Rightarrow> error + complex ndarray" where
  "fft2 a s =
     (let n = length (shape a) in
      case s of
        [H, W] \<Rightarrow>
          if n < 2 \<or> H = 0 \<or> W = 0 then Inl ValueError
          else Inr (tabulate (take (n - 2) (shape a) @ [H, W])
                 (\<lambda>idx. sum_list (map (\<lambda>mn.
                           (if mn ! 0 < shape a ! (n - 2) \<and> mn ! 1 < shape a ! (n - 1)
                            then complex_of_real (elem_at a (take (n - 2) idx @ mn)) else 0)
                           * twiddle H (- int (idx ! (n - 2) * mn ! 0))
                           * twiddle W (- int (idx ! (n - 1) * mn ! 1)))
                        (indices [H, W]))))
      | _ \<Rightarrow> Inl ValueError)"

definition ifft2 :: "complex ndarray \<Rightarrow> error + complex ndarray" where
  "ifft2 a =
     (let n = length (shape a) in
      if n < 2 then Inl ValueError
      else (let H = shape a ! (n - 2); W = shape a ! (n - 1) in
            if H = 0 \<or> W = 0 then Inl ValueError
            else Inr (tabulate (shape a)
                   (\<lambda>idx. sum_list (map (\<lambda>uv.
                             elem_at a (take (n - 2) idx @ uv)
                             * twiddle H (int (uv ! 0 * idx ! (n - 2)))
                             * twiddle W (int (uv ! 1 * idx ! (n - 1))))
                          (indices [H, W]))
                         / complex_of_real (real (H * W))))))"

definition expand_dims :: "'e ndarray \<Rightarrow> nat \<Rightarrow> error + 'e ndarray" where
  "expand_dims a ax =
     (if length (shape a) < ax then Inl AxisError
      else Inr (a\<lparr>shape := take ax (shape a) @ [1] @ drop ax (shape a)\<rparr>))"

text \<open>\<open>__convolve\<close>; every caller passes a pair as \<open>exp_axis\<close>.\<close>

definition convolve :: "real ndarray \<Rightarrow> real ndarray \<Rightarrow> nat \<times> nat \<Rightarrow> error + real ndarray" where
  "convolve x1 x2 exp_axis =
     (let target_shape = drop (length (shape x1) - 2) (shape x1) in
      ebind (fft2 x1 target_shape) (\<lambda>x1_fft.
      ebind (fft2 x2 target_shape) (\<lambda>x2_fft.
      ebind (expand_dims x1_fft (fst exp_axis)) (\<lambda>x1_fft_exp.
      ebind (expand_dims x2_fft (snd exp_axis)) (\<lambda>x2_fft_exp.
      ebind (np_binop (*) x1_fft_exp x2_fft_exp) (\<lambda>prod.
      ebind (ifft2 prod) (\<lambda>r.
        Inr \<lparr>shape = shape r, buf = map Re (buf r)\<rparr>)))))))"

text \<open>\<open>np.flip\<close>, \<open>np.roll\<close> by \<open>-1\<close> and \<open>np.pad\<close> with zeros, on the two spatial
  axes of a four-dimensional array.\<close>

definition np_flip23 :: "'e ndarray \<Rightarrow> error + 'e ndarray" where
  "np_flip23 a =
     (if length (shape a) < 4 then Inl AxisError
      else Inr (tabulate (shape a)
             (\<lambda>idx. elem_at a (idx[2 := shape a ! 2 - 1 - idx ! 2,
                                    3 := shape a ! 3 - 1 - idx ! 3]))))"

definition np_roll23 :: "'e ndarray \<Rightarrow> error + 'e ndarray" where
  "np_roll23 a =
     (if length (shape a) < 4 then Inl AxisError
      else Inr (tabulate (shape a)
             (\<lambda>idx. elem_at a (idx[2 := (idx ! 2 + 1) mod shape a ! 2,
                                    3 := (idx ! 3 + 1) mod shape a ! 3]))))"

definition np_pad23 :: "real ndarray \<Rightarrow> int \<Rightarrow> error + real ndarray" where
  "np_pad23 a pad =
     (case shape a of
        [n, c, h, w] \<Rightarrow>
          if pad < 0 then Inl ValueError
          else (let p = nat pad in
                Inr (tabulate [n, c, h + 2 * p, w + 2 * p]
                  (\<lambda>idx. if p \<le> idx ! 2 \<and> idx ! 2 < p + h \<and> p \<le> idx ! 3 \<and> idx ! 3 < p + w
                          then elem_at a [idx ! 0, idx ! 1, idx ! 2 - p, idx ! 3 - p]
                          else 0)))
      | _ \<Rightarrow> Inl ValueError)"

text \<open>\<open>a[:, :, st2:, st3:]\<close> and \<open>a[:, :, :en2, :en3]\<close>: four indices need four
  axes.\<close>

definition slice_from23 :: "'e ndarray \<Rightarrow> int \<Rightarrow> int \<Rightarrow> error + 'e ndarray" where
  "slice_from23 a st2 st3 =
     (if length (shape a) < 4 then Inl IndexError
      else Inr (slice_axis (slice_axis a 2 (py_bound st2 (shape a ! 2)) (shape a ! 2))
                  3 (py_bound st3 (shape a ! 3)) (shape a ! 3)))"

definition slice_to23 :: "'e ndarray \<Rightarrow> nat \<Rightarrow> nat \<Rightarrow> error + 'e ndarray" where
  "slice_to23 a en2 en3 =
     (if length (shape a) < 4 then Inl IndexError
      else Inr (slice_axis (slice_axis a 2 0 en2) 3 0 en3))"

text \<open>\<open>match_dims\<close> is not in the sources; after the comment at its call it adds
  axes of extent 1 at the end until the array has \<open>dims\<close> axes.\<close>

definition match_dims :: "'e ndarray \<Rightarrow> nat \<Rightarrow> 'e ndarray" where
  "match_dims a dims = a\<lparr>shape := shape a @ replicate (dims - length (shape a)) 1\<rparr>"

text \<open>The paddings of \<open>walnut.nn.paddings\<close> are not in the sources. The layer holds
  which one it was given; their effect is the parameter \<open>paddings\<close> of the methods.\<close>

datatype padding = valid | same

record convolution = param_layer +
  conv_out_channels :: int
  kernel_shape :: "nat \<times> nat"
  pad_fn :: padding

definition Convolution_init :: "int \<Rightarrow> nat \<times> nat \<Rightarrow> padding \<Rightarrow> bool \<Rightarrow> error + convolution" where
  "Convolution_init n_kernels k_shape pad bias =
     (if n_kernels < 1 then Inl ValueError
      else Inr \<lparr>compiled = False, mode = ''eval'', layer_i = None, prev_layer = None,
                succ_layer = None, layer_x = empty_tensor, layer_y = empty_tensor,
                use_bias = bias, param_w = None, param_b = None, params = [],
                conv_out_channels = n_kernels, kernel_shape = k_shape, pad_fn = pad\<rparr>)"

definition set_y_data :: "'z layer_scheme \<Rightarrow> real ndarray \<Rightarrow> 'z layer_scheme" where
  "set_y_data l d = l\<lparr>layer_y := (layer_y l)\<lparr>t_data := d\<rparr>\<rparr>"

definition Convolution_forward ::
  "(padding \<Rightarrow> wtensor \<Rightarrow> nat \<times> nat \<Rightarrow> wtensor) \<Rightarrow> convolution \<Rightarrow> convolution outcome" where
  "Convolution_forward paddings l0 =
     (let l = Layer_forward l0;
          x_pad = t_data (paddings (pad_fn l) (layer_x l) (kernel_shape l))
      in case param_w l of
           None \<Rightarrow> (l, Some AttributeError)
         | Some w \<Rightarrow>
             step (np_flip23 (t_data w)) l (\<lambda>w_rotated.
             step (convolve x_pad w_rotated (1, 0)) l (\<lambda>x_conv_w.
             (case shape (t_data w) of
                [_, _, w_y, w_x] \<Rightarrow>
                  step (np_sum x_conv_w [2]) l (\<lambda>summed.
                  step (slice_from23 summed (int w_y - 1) (int w_x - 1)) l (\<lambda>y.
                  (let l1 = set_y_data l y in
                   if use_bias l1
                   then (case shape (t_data (layer_x l1)) of
                           [] \<Rightarrow> (l1, Some IndexError)
                         | batches # _ \<Rightarrow>
                             (case param_b l1 of
                                None \<Rightarrow> (l1, Some TypeError)
                              | Some b \<Rightarrow>
                                  step (np_binop (*) (t_data b) (full [batches, 1] 1)) l1 (\<lambda>bias.
                                  step (np_inplace (+) (t_data (layer_y l1)) (match_dims bias 4)) l1
                                    (\<lambda>yb. (set_y_data l1 yb, None)))))
                   else (l1, None))))
              | _ \<Rightarrow> (l, Some ValueError)))))"

text \<open>\<open>compile\<close>; \<open>init_fn\<close> makes the weights from their shape and the fan mode.\<close>

definition Convolution_compile ::
  "(padding \<Rightarrow> wtensor \<Rightarrow> nat \<times> nat \<Rightarrow> wtensor) \<Rightarrow> (nat list \<Rightarrow> nat \<Rightarrow> wtensor) \<Rightarrow>
   convolution \<Rightarrow> int \<Rightarrow> wtensor option \<Rightarrow> wtensor option \<Rightarrow> convolution outcome" where
  "Convolution_compile paddings init_fn l0 i prev succ =
     (let l = Layer_compile l0 i prev succ in
      case prev_layer l of
        None \<Rightarrow> (l, Some AttributeError)
      | Some prev_y \<Rightarrow>
          (case shape (t_data prev_y) of
             [_, in_channels, _, _] \<Rightarrow>
               (let w_y = fst (kernel_shape l); w_x = snd (kernel_shape l);
                    w_shape = [nat (conv_out_channels l), in_channels, w_y, w_x];
                    l1 = l\<lparr>param_w := Some (init_fn w_shape (in_channels * w_y * w_x))\<rparr>;
                    l2 = (if use_bias l1
                          then l1\<lparr>param_b := Some (zeros [nat (conv_out_channels l1)])\<rparr>
                          else l1);
                    l3 = l2\<lparr>params := [ref_w, ref_b]\<rparr>
                in case Convolution_forward paddings l3 of
                     (l4, Some e) \<Rightarrow> (l4, Some e)
                   | (l4, None) \<Rightarrow>
                       (case shape (t_data (layer_y l4)) of
                          [_, _, y_y, y_x] \<Rightarrow>
                            if y_y < w_y \<or> y_x < w_x then (l4, Some ValueError)
                            else (l4, None)
                        | _ \<Rightarrow> (l4, Some ValueError)))
           | _ \<Rightarrow> (l, Some ValueError)))"

text \<open>\<open>int(d / 2)\<close>: the quotient is cut towards zero.\<close>

definition int_half :: "int \<Rightarrow> int" where
  "int_half d = (if d < 0 then - ((- d) div 2) else d div 2)"

text \<open>\<open>backward\<close>. Without a gradient in \<open>y\<close>, \<open>np.pad\<close> raises a \<open>ValueError\<close>,
  and under the padding \<open>same\<close> \<open>__convolve\<close> an \<open>AttributeError\<close>.\<close>

definition Convolution_backward ::
  "(padding \<Rightarrow> wtensor \<Rightarrow> nat \<times> nat \<Rightarrow> wtensor) \<Rightarrow> convolution \<Rightarrow> convolution outcome" where
  "Convolution_backward paddings l0 =
     (let l = Layer_backward l0;
          x_p = t_data (paddings (pad_fn l) (layer_x l) (kernel_shape l))
      in case (shape (t_data (layer_x l)), shape (t_data (layer_y l))) of
           ([_, _, x_y, _], [_, _, dy_y, _]) \<Rightarrow>
             (case t_grad (layer_y l) of
                None \<Rightarrow> (l, Some (if pad_fn l \<noteq> same then ValueError else AttributeError))
              | Some dy \<Rightarrow>
                  step (if pad_fn l \<noteq> same
                        then np_pad23 dy (int_half (int x_y - int dy_y))
                        else Inr dy) l (\<lambda>dy_p.
                  (case param_w l of
                     None \<Rightarrow> (l, Some AttributeError)
                   | Some w \<Rightarrow>
                       step (convolve dy_p (t_data w) (2, 0)) l (\<lambda>dy_conv_w.
                       step (np_sum dy_conv_w [1]) l (\<lambda>s1.
                       step (np_roll23 s1) l (\<lambda>dx.
                       (let l1 = l\<lparr>layer_x := (layer_x l)\<lparr>t_grad := Some dx\<rparr>\<rparr> in
                        step (convolve x_p dy (1, 2)) l1 (\<lambda>dy_conv_x.
                        (case shape (t_data w) of
                           [_, _, w_y, w_x] \<Rightarrow>
                             step (np_sum dy_conv_x [0]) l1 (\<lambda>s0.
                             step (slice_from23 s0 (- int w_y) (- int w_x)) l1 (\<lambda>dw.
                             (let l2 = l1\<lparr>param_w := Some (w\<lparr>t_grad := Some dw\<rparr>)\<rparr> in
                              if use_bias l2
                              then (case param_b l2 of
                                      None \<Rightarrow> (l2, Some AttributeError)
                                    | Some b \<Rightarrow>
                                        step (np_sum (t_data (layer_y l2)) [0, 2, 3]) l2 (\<lambda>db.
                                          (l2\<lparr>param_b := Some (b\<lparr>t_grad := Some db\<rparr>)\<rparr>, None)))
                              else (l2, None))))
                         | _ \<Rightarrow> (l1, Some ValueError))))))))))
         | _ \<Rightarrow> (l, Some ValueError))"

subsection \<open>MaxPooling\<close>

record maxpooling = layer +
  p_window :: "nat \<times> nat"
  p_map :: "real ndarray option"

text \<open>\<open>__crop\<close>: the input cut to whole windows.\<close>

definition crop :: "maxpooling \<Rightarrow> error + real ndarray" where
  "crop l =
     (case shape (t_data (layer_x l)) of
        [_, _, x_y, x_x] \<Rightarrow>
          (let w_y = fst (p_window l); w_x = snd (p_window l) in
           if w_y = 0 \<or> w_x = 0 then Inl ZeroDivisionError
           else slice_to23 (t_data (layer_x l)) (x_y div w_y * w_y) (x_x div w_x * w_x))
      | _ \<Rightarrow> Inl ValueError)"

text \<open>\<open>np.repeat(a, n, axis)\<close> and \<open>np.resize(a, new_shape)\<close>, which fills the new
  shape with the elements of \<open>a\<close> in order, starting over when they run out, and
  with zeros when \<open>a\<close> has no element.\<close>

definition np_repeat :: "'e ndarray \<Rightarrow> nat \<Rightarrow> nat \<Rightarrow> error + 'e ndarray" where
  "np_repeat a n ax =
     (if length (shape a) \<le> ax then Inl AxisError
      else Inr (tabulate ((shape a)[ax := shape a ! ax * n])
             (\<lambda>idx. elem_at a (idx[ax := idx ! ax div n]))))"

definition np_resize :: "real ndarray \<Rightarrow> nat list \<Rightarrow> real ndarray" where
  "np_resize a new_shape =
     (if buf a = [] then full new_shape 0
      else \<lparr>shape = new_shape,
            buf = map (\<lambda>k. buf a ! (k mod length (buf a))) [0..<prod_list new_shape]\<rparr>)"

text \<open>\<open>__stretch\<close>\<close>

definition stretch ::
  "real ndarray \<Rightarrow> nat \<times> nat \<Rightarrow> nat \<times> nat \<Rightarrow> nat list \<Rightarrow> error + real ndarray" where
  "stretch x streching axis target_shape =
     ebind (np_repeat x (fst streching) (fst axis)) (\<lambda>x_stretched.
     ebind (np_repeat x_stretched (snd streching) (snd axis)) (\<lambda>x_stretched.
       Inr (np_resize x_stretched target_shape)))"

text \<open>\<open>np.max(chunk, axis=(2, 3))\<close> of the window at \<open>(y, x)\<close>, written to
  \<open>y_data[:, :, y, x]\<close>.\<close>

definition chunk_max :: "real ndarray \<Rightarrow> nat \<times> nat \<Rightarrow> nat \<Rightarrow> nat \<Rightarrow> error + real ndarray" where
  "chunk_max x_data window y x =
     (if length (shape x_data) < 4 then Inl IndexError
      else (let chunk = slice_axis (slice_axis x_data 2 (y * fst window) ((y + 1) * fst window))
                          3 (x * snd window) ((x + 1) * snd window)
            in if shape chunk ! 2 = 0 \<or> shape chunk ! 3 = 0 then Inl ValueError
               else Inr (tabulate (take 2 (shape chunk))
                      (\<lambda>idx. (case map (\<lambda>r. elem_at chunk (idx @ r)) (indices (drop 2 (shape chunk))) of
                                 v # vs \<Rightarrow> fold max vs v)))))"

definition assign_yx :: "real ndarray \<Rightarrow> nat \<Rightarrow> nat \<Rightarrow> real ndarray \<Rightarrow> real ndarray" where
  "assign_yx y_data y x vals =
     tabulate (shape y_data)
       (\<lambda>idx. if idx ! 2 = y \<and> idx ! 3 = x then elem_at vals (take 2 idx) else elem_at y_data idx)"

text \<open>The two loops of \<open>forward\<close>, \<open>for y in range(y_y): for x in range(y_x)\<close>.\<close>

fun pool_row :: "real ndarray \<Rightarrow> nat \<times> nat \<Rightarrow> nat \<Rightarrow> nat list \<Rightarrow> real ndarray \<Rightarrow> error + real ndarray" where
  "pool_row x_data window y [] y_data = Inr y_data"
| "pool_row x_data window y (x # xs) y_data =
     ebind (chunk_max x_data window y x) (\<lambda>vals.
       pool_row x_data window y xs (assign_yx y_data y x vals))"

fun pool_rows :: "real ndarray \<Rightarrow> nat \<times> nat \<Rightarrow> nat list \<Rightarrow> nat list \<Rightarrow> real ndarray \<Rightarrow> error + real ndarray" where
  "pool_rows x_data window [] xs y_data = Inr y_data"
| "pool_rows x_data window (y # ys) xs y_data =
     ebind (pool_row x_data window y xs y_data) (\<lambda>y_data'.
       pool_rows x_data window ys xs y_data')"

definition MaxPooling_forward :: "maxpooling \<Rightarrow> error + maxpooling" where
  "MaxPooling_forward l0 =
     (let l = Layer_forward l0 in
      ebind (crop l) (\<lambda>x_pad.
      (case shape (t_data (layer_x l)) of
         [x_b, x_c, _, _] \<Rightarrow>
           (let p_y = fst (p_window l); p_x = snd (p_window l);
                y_y = shape x_pad ! 2 div p_y; y_x = shape x_pad ! 3 div p_x
            in ebind (pool_rows (t_data (layer_x l)) (p_window l) [0..<y_y] [0..<y_x]
                        (full [x_b, x_c, y_y, y_x] 0)) (\<lambda>y_data.
               ebind (stretch y_data (p_window l) (2, 3) (shape x_pad)) (\<lambda>y_s.
               ebind (np_binop (\<lambda>a b. if a = b then 1 else 0) x_pad y_s) (\<lambda>pm.
                 Inr ((set_y_data l y_data)\<lparr>p_map := Some pm\<rparr>)))))
       | _ \<Rightarrow> Inl ValueError)))"

definition MaxPooling_backward :: "maxpooling \<Rightarrow> error + maxpooling" where
  "MaxPooling_backward l0 =
     (let l = Layer_backward l0 in
      case p_map l of
        None \<Rightarrow> Inl AttributeError
      | Some pm \<Rightarrow>
          (case t_grad (layer_y l) of
             None \<Rightarrow> Inl AxisError
           | Some dy \<Rightarrow>
               ebind (stretch dy (p_window l) (2, 3) (shape pm)) (\<lambda>dy_s.
               (case shape (t_data (layer_x l)) of
                  [_, _, x_y, x_x] \<Rightarrow>
                    ebind (np_binop (*) dy_s pm) (\<lambda>masked.
                    ebind (slice_to23 masked x_y x_x) (\<lambda>dx.
                      Inr (l\<lparr>layer_x := (layer_x l)\<lparr>t_grad := Some dx\<rparr>\<rparr>)))
                | _ \<Rightarrow> Inl ValueError))))"

section \<open>Inputs for the examples\<close>

text \<open>The padding \<open>valid\<close> leaves its input as it is. \<open>same\<close> is not used where this
  stands for the paddings.\<close>

definition valid_paddings :: "padding \<Rightarrow> wtensor \<Rightarrow> nat \<times> nat \<Rightarrow> wtensor" where
  "valid_paddings p x k = x"

text \<open>An initialiser that sets every weight to 1.\<close>

definition ones_init :: "nat list \<Rightarrow> nat \<Rightarrow> wtensor" where
  "ones_init s fan_mode = \<lparr>t_data = full s 1, t_grad = None\<rparr>"

text \<open>A chain of two affine children without bias, in training mode.\<close>

definition seq_example :: "(affine, real ndarray) sequential" where
  "seq_example =
     \<lparr>sub_modules = [affine_module \<lparr>shape = [1, 1], buf = [2]\<rparr> None,
                     affine_module \<lparr>shape = [1, 1], buf = [3]\<rparr> None],
      training = True, backward_set = False, seq_y = None, seq_dy = None\<rparr>"

text \<open>A Linear layer without bias whose weight already holds the gradient 5: the
  input is 2 and the gradient that arrives from the next layer is 3.\<close>

definition lin_example :: linear where
  "lin_example =
     \<lparr>compiled = True, mode = ''train'', layer_i = Some 1, prev_layer = None,
      succ_layer = Some \<lparr>t_data = \<lparr>shape = [1, 1], buf = [0]\<rparr>,
                         t_grad = Some \<lparr>shape = [1, 1], buf = [3]\<rparr>\<rparr>,
      layer_x = \<lparr>t_data = \<lparr>shape = [1, 1], buf = [2]\<rparr>, t_grad = None\<rparr>,
      layer_y = \<lparr>t_data = \<lparr>shape = [1, 1], buf = [2]\<rparr>, t_grad = None\<rparr>,
      use_bias = False,
      param_w = Some \<lparr>t_data = \<lparr>shape = [1, 1], buf = [1]\<rparr>,
                       t_grad = Some \<lparr>shape = [1, 1], buf = [5]\<rparr>\<rparr>,
      param_b = None, params = [ref_w, ref_b], out_channels = 1\<rparr>"

text \<open>A Dropout layer in training mode with drop rate 1/2 and input \<open>[1, 2]\<close>.\<close>

definition drop_example :: dropout where
  "drop_example =
     \<lparr>compiled = True, mode = ''train'', layer_i = Some 1, prev_layer = None,
      succ_layer = None,
      layer_x = \<lparr>t_data = \<lparr>shape = [2], buf = [1, 2]\<rparr>, t_grad = None\<rparr>,
      layer_y = empty_tensor, d_rate = 1 / 2, d_map = None\<rparr>"

text \<open>A MaxPooling layer with a 2 by 2 window on a 3 by 3 input; the next layer hands
  back the gradient 1 for the one output element.\<close>

definition pool_example :: maxpooling where
  "pool_example =
     \<lparr>compiled = True, mode = ''train'', layer_i = Some 1, prev_layer = None,
      succ_layer = Some \<lparr>t_data = \<lparr>shape = [1, 1, 1, 1], buf = [0]\<rparr>,
                         t_grad = Some \<lparr>shape = [1, 1, 1, 1], buf = [1]\<rparr>\<rparr>,
      layer_x = \<lparr>t_data = \<lparr>shape = [1, 1, 3, 3], buf = [1, 2, 3, 4, 5, 6, 7, 8, 9]\<rparr>,
                 t_grad = None\<rparr>,
      layer_y = empty_tensor, p_window = (2, 2), p_map = None\<rparr>"

text \<open>A Convolution layer with one 1 by 1 kernel of weight 1 and bias 0 on the
  1 by 1 input 3; the next layer hands back the gradient 2.\<close>

definition conv_example :: convolution where
  "conv_example =
     \<lparr>compiled = True, mode = ''train'', layer_i = Some 1, prev_layer = None,
      succ_layer = Some \<lparr>t_data = \<lparr>shape = [1, 1, 1, 1], buf = [0]\<rparr>,
                         t_grad = Some \<lparr>shape = [1, 1, 1, 1], buf = [2]\<rparr>\<rparr>,
      layer_x = \<lparr>t_data = \<lparr>shape = [1, 1, 1, 1], buf = [3]\<rparr>, t_grad = None\<rparr>,
      layer_y = empty_tensor,
      use_bias = True,
      param_w = Some \<lparr>t_data = \<lparr>shape = [1, 1, 1, 1], buf = [1]\<rparr>, t_grad = None\<rparr>,
      param_b = Some \<lparr>t_data = \<lparr>shape = [1], buf = [0]\<rparr>, t_grad = None\<rparr>,
      params = [ref_w, ref_b],
      conv_out_channels = 1, kernel_shape = (1, 1), pad_fn = valid\<rparr>"

text \<open>An uncompiled Convolution layer with one 2 by 2 kernel, as
  \<open>Convolution(1, (2, 2))\<close> constructs it, and the output of a previous layer with
  one channel of extent 1 by 1.\<close>

definition conv_new :: convolution where
  "conv_new =
     \<lparr>compiled = False, mode = ''eval'', layer_i = None, prev_layer = None,
      succ_layer = None, layer_x = empty_tensor, layer_y = empty_tensor,
      use_bias = True, param_w = None, param_b = None, params = [],
      conv_out_channels = 1, kernel_shape = (2, 2), pad_fn = valid\<rparr>"

definition prev_example :: wtensor where
  "prev_example = \<lparr>t_data = \<lparr>shape = [1, 1, 1, 1], buf = [1]\<rparr>, t_grad = None\<rparr>"

text \<open>A Parallel container in training mode with two affine children of widths 1 and
  2 on inputs of width 2, concatenating on the last axis.\<close>

definition par_example :: "affine parallel" where
  "par_example =
     \<lparr>par_modules = [affine_module \<lparr>shape = [2, 1], buf = [1, 2]\<rparr> None,
                     affine_module \<lparr>shape = [2, 2], buf = [1, 0, 0, 1]\<rparr>
                       (Some \<lparr>shape = [2], buf = [10, 20]\<rparr>)],
      concat_axis = - 1, par_training = True, par_backward = None,
      par_y = None, par_dy = None\<rparr>"

section \<open>Facts about arrays\<close>

lemma concat_blocks:
  "concat (map (\<lambda>i. [(b + i) * p ..< (b + i) * p + p]) [0..<n]) = [b * p ..< b * p + n * p]"
proof (induction n)
  case 0
  show ?case by simp
next
  case (Suc m)
  have split: "[b * p ..< (b * p + m * p) + p] = [b * p ..< b * p + m * p] @ [b * p + m * p ..< (b * p + m * p) + p]"
    by (rule upt_add_eq_append) simp
  have eq1: "(b + m) * p = b * p + m * p"
    by (simp only: add_mult_distrib)
  have eq2: "b * p + Suc m * p = (b * p + m * p) + p"
    by (simp only: mult_Suc add.assoc add.commute [of p])
  have "concat (map (\<lambda>i. [(b + i) * p ..< (b + i) * p + p]) [0..<Suc m])
      = concat (map (\<lambda>i. [(b + i) * p ..< (b + i) * p + p]) [0..<m]) @ [(b + m) * p ..< (b + m) * p + p]"
    by simp
  also have "\<dots> = [b * p ..< b * p + m * p] @ [b * p + m * p ..< (b * p + m * p) + p]"
    by (simp only: Suc.IH eq1)
  also have "\<dots> = [b * p ..< b * p + Suc m * p]"
    by (simp only: split eq2)
  finally show ?case .
qed

lemma offset_indices:
  "map (offset acc s) (indices s) = [acc * prod_list s ..< acc * prod_list s + prod_list s]"
proof (induction s arbitrary: acc)
  case Nil
  show ?case by simp
next
  case (Cons n ns)
  have "map (offset acc (n # ns)) (indices (n # ns))
      = concat (map (\<lambda>i. map (offset (acc * n + i) ns) (indices ns)) [0..<n])"
    by (simp add: map_concat comp_def)
  also have "\<dots> = concat (map (\<lambda>i. [(acc * n + i) * prod_list ns ..< (acc * n + i) * prod_list ns + prod_list ns]) [0..<n])"
    by (simp add: Cons.IH)
  also have "\<dots> = [acc * n * prod_list ns ..< acc * n * prod_list ns + n * prod_list ns]"
    by (rule concat_blocks)
  finally show ?case by (simp add: algebra_simps)
qed

lemma length_indices: "length (indices s) = prod_list s"
  using arg_cong [OF offset_indices [of 0 s], of length] by simp

lemma indices_in_range:
  "idx \<in> set (indices s) \<Longrightarrow> length idx = length s \<and> (\<forall>k < length s. idx ! k < s ! k)"
proof (induction s arbitrary: idx)
  case Nil
  then show ?case by simp
next
  case (Cons n ns)
  then obtain i r where "i < n" "r \<in> set (indices ns)" "idx = i # r" by auto
  with Cons.IH [of r] show ?case by (auto simp: nth_Cons split: nat.splits)
qed

lemma tabulate_elem_at:
  assumes "well_shaped a" shows "tabulate (shape a) (elem_at a) = a"
proof -
  have "map (elem_at a) (indices (shape a)) = map ((!) (buf a)) (map (offset 0 (shape a)) (indices (shape a)))"
    by (simp add: elem_at_def comp_def)
  also have "\<dots> = map ((!) (buf a)) [0..<length (buf a)]"
    using assms by (simp add: offset_indices well_shaped_def)
  also have "\<dots> = buf a" by (rule map_nth)
  finally show ?thesis by (simp add: tabulate_def)
qed

lemma clip_in_range:
  "idx \<in> set (indices s) \<Longrightarrow> map2 (\<lambda>n i. if n = 1 then 0 else i) s idx = idx"
proof (induction s arbitrary: idx)
  case Nil
  then show ?case by simp
next
  case (Cons n ns)
  then obtain i r where "i < n" "r \<in> set (indices ns)" "idx = i # r" by auto
  with Cons.IH [of r] show ?case by auto
qed

lemma bget_in_range:
  "idx \<in> set (indices (shape a)) \<Longrightarrow> bget a idx = elem_at a idx"
  using indices_in_range [of idx "shape a"] clip_in_range [of idx "shape a"] by (simp add: bget_def)

lemma bget_scalar: "bget (scalar c) idx = c"
  by (simp add: bget_def scalar_def elem_at_def)

lemma bshape_same: "bshape xs xs = Some xs"
  by (induction xs) auto

lemma bshape_Nil2: "bshape xs [] = Some xs"
  by (cases xs) auto

lemma broadcast_shapes_same: "broadcast_shapes s s = Some s"
  by (simp add: broadcast_shapes_def bshape_same)

lemma broadcast_shapes_scalar: "broadcast_shapes s [] = Some s" "broadcast_shapes [] s = Some s"
  by (simp_all add: broadcast_shapes_def bshape_Nil2)

lemma map2_nth_buf:
  assumes "well_shaped a" "well_shaped b" "shape a = shape b"
  shows "map (\<lambda>idx. f (elem_at a idx) (elem_at b idx)) (indices (shape a)) = map2 f (buf a) (buf b)"
proof -
  have "map (\<lambda>idx. f (elem_at a idx) (elem_at b idx)) (indices (shape a))
      = map (\<lambda>k. f (buf a ! k) (buf b ! k)) (map (offset 0 (shape a)) (indices (shape a)))"
    using assms by (simp add: elem_at_def comp_def)
  also have "\<dots> = map (\<lambda>k. f (buf a ! k) (buf b ! k)) [0..<length (buf a)]"
    using assms by (simp add: offset_indices well_shaped_def)
  also have "\<dots> = map2 f (buf a) (buf b)"
    using assms by (intro nth_equalityI) (auto simp: well_shaped_def)
  finally show ?thesis .
qed

lemma np_binop_same_shape:
  assumes "well_shaped a" "well_shaped b" "shape a = shape b"
  shows "np_binop f a b = Inr \<lparr>shape = shape a, buf = map2 f (buf a) (buf b)\<rparr>"
proof -
  have "map (\<lambda>idx. f (bget a idx) (bget b idx)) (indices (shape a))
      = map (\<lambda>idx. f (elem_at a idx) (elem_at b idx)) (indices (shape a))"
    using assms by (intro map_cong refl) (simp add: bget_in_range)
  also have "\<dots> = map2 f (buf a) (buf b)"
    using assms by (rule map2_nth_buf)
  finally have "tabulate (shape a) (\<lambda>idx. f (bget a idx) (bget b idx))
      = \<lparr>shape = shape a, buf = map2 f (buf a) (buf b)\<rparr>"
    by (simp add: tabulate_def)
  moreover have "broadcast_shapes (shape a) (shape b) = Some (shape a)"
    using assms by (simp add: broadcast_shapes_same)
  ultimately show ?thesis
    by (simp add: np_binop_def)
qed

lemma np_binop_scalar_right:
  assumes "well_shaped a"
  shows "np_binop f a (scalar c) = Inr \<lparr>shape = shape a, buf = map (\<lambda>x. f x c) (buf a)\<rparr>"
proof -
  have "map (\<lambda>idx. f (bget a idx) (bget (scalar c) idx)) (indices (shape a))
      = map (\<lambda>x. f x c) (map (elem_at a) (indices (shape a)))"
    by (simp add: bget_scalar bget_in_range comp_def cong: map_cong)
  also have "map (elem_at a) (indices (shape a)) = buf a"
    using tabulate_elem_at [OF assms] by (simp add: tabulate_def) (metis ndarray.select_convs(2))
  finally show ?thesis
    by (simp add: np_binop_def scalar_def broadcast_shapes_scalar tabulate_def)
qed

lemma np_binop_scalar_left:
  assumes "well_shaped a"
  shows "np_binop f (scalar c) a = Inr \<lparr>shape = shape a, buf = map (f c) (buf a)\<rparr>"
proof -
  have "map (\<lambda>idx. f (bget (scalar c) idx) (bget a idx)) (indices (shape a))
      = map (f c) (map (elem_at a) (indices (shape a)))"
    by (simp add: bget_scalar bget_in_range comp_def cong: map_cong)
  also have "map (elem_at a) (indices (shape a)) = buf a"
    using tabulate_elem_at [OF assms] by (simp add: tabulate_def) (metis ndarray.select_convs(2))
  finally show ?thesis
    by (simp add: np_binop_def scalar_def broadcast_shapes_scalar tabulate_def)
qed





lemma ndarray_eta: "\<lparr>shape = shape a, buf = buf a\<rparr> = (a :: 'e ndarray)"
  by (cases a) simp

lemma map_add_zero: "map ((+) (0::real)) xs = xs"
  by (induction xs) auto

section \<open>Tensor: truth value, accumulation, conversion\<close>

text \<open>
  C10. Every tensor is truthy: \<open>bool(t)\<close> is \<open>True\<close> whatever the tensor holds. So is
  the tensor an equality comparison returns, and a gradient tensor of zeros.
\<close>

theorem tensor_always_truthy:
  "tensor_bool t \<and> (\<forall>r. tensor_eq t other = Inr r \<longrightarrow> tensor_bool r)
     \<and> tensor_bool (new_tensor (full s (0::real)))"
  by (simp add: tensor_bool_def)

theorem tensor_always_truthy_witness:
  "tensor_eq (new_tensor \<lparr>shape = [2], buf = [1, 2 :: real]\<rparr>)
       (Tens (new_tensor \<lparr>shape = [2], buf = [3, 4]\<rparr>))
     = Inr (new_tensor \<lparr>shape = [2], buf = [False, False]\<rparr>)
   \<and> tensor_bool (new_tensor \<lparr>shape = [2], buf = [False, False]\<rparr>)"
proof -
  have eq: "tensor_eq (new_tensor \<lparr>shape = [2], buf = [1, 2 :: real]\<rparr>)
       (Tens (new_tensor \<lparr>shape = [2], buf = [3, 4]\<rparr>))
     = Inr (new_tensor \<lparr>shape = [2], buf = [False, False]\<rparr>)"
    by code_simp
  from tensor_always_truthy [of "new_tensor \<lparr>shape = [2], buf = [1, 2 :: real]\<rparr>"
      "Tens (new_tensor \<lparr>shape = [2], buf = [3, 4]\<rparr>)"] eq
  show ?thesis by simp
qed



text \<open>
  C9. \<open>to_device\<close> returns the tensor itself when its data is on the requested device,
  and otherwise a new tensor on that device; \<open>to_type\<close> likewise for the dtype.
  Converting the result once more to the same target returns it unchanged. The new
  tensor has the target's device or dtype for every backend whose \<open>data_to_device\<close>
  and \<open>astype\<close> produce an array of the device or dtype asked for.
\<close>

theorem conversions_idempotent:
  assumes "\<And>a d. device_of (data_to_device a d) = d"
      and "\<And>a ty. dtype_of (astype a ty) = ty"
  shows "(device_of (data t) = d \<longrightarrow> to_device device_of data_to_device t d = Self)
       \<and> (device_of (data t) \<noteq> d \<longrightarrow>
            (\<exists>t'. to_device device_of data_to_device t d = New t' \<and> device_of (data t') = d
                 \<and> to_device device_of data_to_device t' d = Self))
       \<and> (dtype_of (data t) = ty \<longrightarrow> to_type dtype_of astype t ty = Self)
       \<and> (dtype_of (data t) \<noteq> ty \<longrightarrow>
            (\<exists>t'. to_type dtype_of astype t ty = New t' \<and> dtype_of (data t') = ty
                 \<and> to_type dtype_of astype t' ty = Self))"
  using assms by (cases t) (simp add: to_type_def new_tensor_def)

theorem conversions_idempotent_witness:
  "to_device dev tagged_to_device
      (new_tensor \<lparr>dev = cpu, dt = float32, arr = \<lparr>shape = [1], buf = [1]\<rparr>\<rparr>) cpu = Self
   \<and> (\<exists>t'. to_device dev tagged_to_device
         (new_tensor \<lparr>dev = cpu, dt = float32, arr = \<lparr>shape = [1], buf = [1]\<rparr>\<rparr>) cuda = New t'
         \<and> dev (data t') = cuda)
   \<and> (\<exists>t'. to_type dt tagged_astype
         (new_tensor \<lparr>dev = cpu, dt = float32, arr = \<lparr>shape = [1], buf = [1]\<rparr>\<rparr>) float64 = New t'
         \<and> dt (data t') = float64)"
proof -
  have d: "\<And>a d. dev (tagged_to_device a d) = d"
    by (simp add: tagged_to_device_def)
  have ty: "\<And>a ty. dt (tagged_astype a ty) = ty"
    by (simp add: tagged_astype_def)
  from conversions_idempotent [of dev tagged_to_device dt tagged_astype, OF d ty,
      of "new_tensor \<lparr>dev = cpu, dt = float32, arr = \<lparr>shape = [1], buf = [1]\<rparr>\<rparr>" cpu float64]
    conversions_idempotent [of dev tagged_to_device dt tagged_astype, OF d ty,
      of "new_tensor \<lparr>dev = cpu, dt = float32, arr = \<lparr>shape = [1], buf = [1]\<rparr>\<rparr>" cuda float64]
  show ?thesis
    by (auto simp: new_tensor_def tagged_to_device_def tagged_astype_def)
qed

section \<open>Sequential container\<close>

lemma foldl_chain_Inl:
  "foldl (\<lambda>acc m. case acc of Inl e \<Rightarrow> Inl e
        | Inr (y, seen) \<Rightarrow> (case apply_call m y of Inl e \<Rightarrow> Inl e | Inr (z, m') \<Rightarrow> Inr (z, seen @ [m'])))
     (Inl e) ms = Inl e"
  by (induction ms) simp_all

lemma foldl_chain_call_loop:
  "foldl (\<lambda>acc m. case acc of Inl e \<Rightarrow> Inl e
        | Inr (y, seen) \<Rightarrow> (case apply_call m y of Inl e \<Rightarrow> Inl e | Inr (z, m') \<Rightarrow> Inr (z, seen @ [m'])))
     (Inr (x, seen)) ms
   = (case call_loop ms x of Inl e \<Rightarrow> Inl e | Inr (y, ms') \<Rightarrow> Inr (y, seen @ ms'))"
proof (induction ms arbitrary: x seen)
  case Nil
  show ?case by simp
next
  case (Cons m ms)
  show ?case
  proof (cases "apply_call m x")
    case (Inl e)
    then show ?thesis by (simp add: foldl_chain_Inl)
  next
    case (Inr r)
    obtain y m' where r: "r = (y, m')" by (cases r)
    show ?thesis
      using Inr r Cons.IH [of y "seen @ [m']"]
      by (simp split: sum.splits prod.splits)
  qed
qed

lemma call_loop_manual: "call_loop ms x = manual_forward ms x"
  using foldl_chain_call_loop [of x "[]" ms]
  by (simp split: sum.splits prod.splits)

lemma backward_loop_snoc:
  "backward_loop (xs @ [m]) dy =
     (case backward_loop xs dy of
        Inl e \<Rightarrow> Inl e
      | Inr (g, xs') \<Rightarrow>
          (case apply_backward m g of
             Inl e \<Rightarrow> Inl e
           | Inr (dx, m') \<Rightarrow> Inr (dx, xs' @ [m'])))"
  by (induction xs arbitrary: dy) (simp_all split: sum.splits prod.splits)

lemma backward_loop_rev:
  "backward_loop (rev ms) dy =
     (case manual_backward ms dy of Inl e \<Rightarrow> Inl e | Inr (dx, ms') \<Rightarrow> Inr (dx, rev ms'))"
  by (induction ms) (simp_all add: backward_loop_snoc split: sum.splits prod.splits)

text \<open>
  C6. A Sequential container in training mode computes what chaining its children by
  hand computes: forward gives the same output and leaves the children in the same
  states, and backward, which walks the children in reverse, gives the same input
  gradient and the same states of the children, their parameter gradients included.
  Where the chain raises, so does the container.
\<close>

theorem sequential_matches_manual_chain:
  assumes "training c"
  shows "case manual_forward (sub_modules c) x of
           Inl e \<Rightarrow> sequential_call c x = Inl e
         | Inr (y, ms) \<Rightarrow>
             (\<exists>c'. sequential_call c x = Inr (y, c') \<and> sub_modules c' = ms \<and>
                (\<forall>dy. case manual_backward ms dy of
                         Inl e \<Rightarrow> sequential_backward c' dy = Inl e
                       | Inr (dx, ms') \<Rightarrow>
                           (\<exists>c''. sequential_backward c' dy = Inr (dx, c'') \<and>
                                  sub_modules c'' = ms')))"
proof (cases "manual_forward (sub_modules c) x")
  case (Inl e)
  then show ?thesis
    by (simp add: sequential_call_def call_loop_manual del: manual_forward.simps)
next
  case (Inr r)
  obtain y ms where r: "r = (y, ms)" by (cases r)
  define c' where "c' = c\<lparr>sub_modules := ms, backward_set := True, seq_y := Some y\<rparr>"
  have call: "sequential_call c x = Inr (y, c')"
    using Inr r assms
    by (simp add: sequential_call_def call_loop_manual c'_def del: manual_forward.simps)
  have bwd: "case manual_backward ms dy of
                Inl e \<Rightarrow> sequential_backward c' dy = Inl e
              | Inr (dx, ms') \<Rightarrow>
                  (\<exists>c''. sequential_backward c' dy = Inr (dx, c'') \<and> sub_modules c'' = ms')" for dy
    by (simp add: sequential_backward_def backward_loop_rev c'_def split: sum.splits prod.splits)
  have sm: "sub_modules c' = ms"
    by (simp add: c'_def)
  have "\<exists>c'. sequential_call c x = Inr (y, c') \<and> sub_modules c' = ms \<and>
          (\<forall>dy. case manual_backward ms dy of
                   Inl e \<Rightarrow> sequential_backward c' dy = Inl e
                 | Inr (dx, ms') \<Rightarrow>
                     (\<exists>c''. sequential_backward c' dy = Inr (dx, c'') \<and>
                            sub_modules c'' = ms'))"
    using call sm bwd by blast
  then show ?thesis
    using Inr r by (simp del: manual_forward.simps)
qed

theorem sequential_matches_manual_chain_witness:
  "training seq_example \<and>
   (\<exists>c'. sequential_call seq_example \<lparr>shape = [1, 1], buf = [1]\<rparr>
            = Inr (\<lparr>shape = [1, 1], buf = [6]\<rparr>, c') \<and>
      (\<exists>c''. sequential_backward c' \<lparr>shape = [1, 1], buf = [1]\<rparr>
            = Inr (\<lparr>shape = [1, 1], buf = [6]\<rparr>, c'') \<and>
         map (\<lambda>m. aff_w_grad (m_state m)) (sub_modules c'')
            = [Some \<lparr>shape = [1, 1], buf = [3]\<rparr>, Some \<lparr>shape = [1, 1], buf = [2]\<rparr>]))"
proof -
  let ?x = "\<lparr>shape = [1, 1], buf = [1 :: real]\<rparr>"
  let ?s1 = "\<lparr>aff_w = \<lparr>shape = [1, 1], buf = [2]\<rparr>, aff_b = None, aff_w_grad = None,
               aff_b_grad = None, aff_x = None\<rparr>"
  let ?s2 = "\<lparr>aff_w = \<lparr>shape = [1, 1], buf = [3]\<rparr>, aff_b = None, aff_w_grad = None,
               aff_b_grad = None, aff_x = None\<rparr>"
  let ?y1 = "\<lparr>shape = [1, 1], buf = [2 :: real]\<rparr>"
  let ?y2 = "\<lparr>shape = [1, 1], buf = [6 :: real]\<rparr>"
  let ?g1 = "\<lparr>shape = [1, 1], buf = [3 :: real]\<rparr>"
  let ?m1 = "\<lparr>m_state = ?s1\<lparr>aff_x := Some ?x\<rparr>, m_call = affine_call, m_backward = affine_backward\<rparr>"
  let ?m2 = "\<lparr>m_state = ?s2\<lparr>aff_x := Some ?y1\<rparr>, m_call = affine_call, m_backward = affine_backward\<rparr>"
  let ?n1 = "\<lparr>m_state = ?s1\<lparr>aff_x := Some ?x, aff_w_grad := Some ?g1\<rparr>,
               m_call = affine_call, m_backward = affine_backward\<rparr>"
  let ?n2 = "\<lparr>m_state = ?s2\<lparr>aff_x := Some ?y1, aff_w_grad := Some ?y1\<rparr>,
               m_call = affine_call, m_backward = affine_backward\<rparr>"
  have c1: "affine_call ?s1 ?x = Inr (?y1, ?s1\<lparr>aff_x := Some ?x\<rparr>)"
    by code_simp
  have c2: "affine_call ?s2 ?y1 = Inr (?y2, ?s2\<lparr>aff_x := Some ?y1\<rparr>)"
    by code_simp
  have b2: "affine_backward (?s2\<lparr>aff_x := Some ?y1\<rparr>) ?x
      = Inr (?g1, ?s2\<lparr>aff_x := Some ?y1, aff_w_grad := Some ?y1\<rparr>)"
    by code_simp
  have b1: "affine_backward (?s1\<lparr>aff_x := Some ?x\<rparr>) ?g1
      = Inr (?y2, ?s1\<lparr>aff_x := Some ?x, aff_w_grad := Some ?g1\<rparr>)"
    by code_simp
  have mf: "manual_forward (sub_modules seq_example) ?x = Inr (?y2, [?m1, ?m2])"
    using c1 c2 by (simp add: seq_example_def affine_module_def apply_call_def)
  have mb: "manual_backward [?m1, ?m2] ?x = Inr (?y2, [?n1, ?n2])"
    using b1 b2 by (simp add: apply_backward_def)
  have tr: "training seq_example"
    by (simp add: seq_example_def)
  from sequential_matches_manual_chain [OF tr, of ?x] mf
  obtain c' where c': "sequential_call seq_example ?x = Inr (?y2, c')"
    "\<forall>dy. case manual_backward [?m1, ?m2] dy of
             Inl e \<Rightarrow> sequential_backward c' dy = Inl e
           | Inr (dx, ms') \<Rightarrow>
               (\<exists>c''. sequential_backward c' dy = Inr (dx, c'') \<and> sub_modules c'' = ms')"
    by (auto simp del: manual_forward.simps)
  from c'(2) have "case manual_backward [?m1, ?m2] ?x of
             Inl e \<Rightarrow> sequential_backward c' ?x = Inl e
           | Inr (dx, ms') \<Rightarrow>
               (\<exists>c''. sequential_backward c' ?x = Inr (dx, c'') \<and> sub_modules c'' = ms')"
    by (rule spec)
  then have "\<exists>c''. sequential_backward c' ?x = Inr (?y2, c'') \<and> sub_modules c'' = [?n1, ?n2]"
    by (simp only: mb sum.case prod.case)
  then obtain c'' where "sequential_backward c' ?x = Inr (?y2, c'')" "sub_modules c'' = [?n1, ?n2]"
    by blast
  with c'(1) tr show ?thesis
    by auto
qed

section \<open>Layers\<close>

lemma map_map2:
  "map f (map2 g xs ys) = map2 (\<lambda>x y. f (g x y)) xs ys"
  by (induction xs arbitrary: ys) (auto split: list.splits simp: zip_Cons1)

lemma length_random_choice: "well_shaped (random_choice coins s)"
  by (simp add: well_shaped_def random_choice_def)

lemma shape_random_choice: "shape (random_choice coins s) = s"
  by (simp add: random_choice_def)

lemma mask_scale:
  assumes "well_shaped a" "well_shaped m" "shape m = shape a"
  shows "\<exists>am. np_binop (*) a m = Inr am
       \<and> np_binop (/) am (scalar c)
           = Inr \<lparr>shape = shape a, buf = map2 (\<lambda>v k. v * k / c) (buf a) (buf m)\<rparr>"
proof -
  have am: "np_binop (*) a m = Inr \<lparr>shape = shape a, buf = map2 (*) (buf a) (buf m)\<rparr>"
    using assms by (simp add: np_binop_same_shape)
  have "well_shaped \<lparr>shape = shape a, buf = map2 (*) (buf a) (buf m)\<rparr>"
    using assms by (simp add: well_shaped_def)
  then have "np_binop (/) \<lparr>shape = shape a, buf = map2 (*) (buf a) (buf m)\<rparr> (scalar c)
      = Inr \<lparr>shape = shape a, buf = map (\<lambda>v. v / c) (map2 (*) (buf a) (buf m))\<rparr>"
    by (simp add: np_binop_scalar_right)
  with am show ?thesis
    by (simp add: map_map2 split_def comp_def)
qed

text \<open>
  C7. In training mode Dropout's forward draws the keep-mask once and stores it;
  the output is the input times that mask over \<open>1 - d_rate\<close>. The backward that
  follows multiplies the gradient arriving from the next layer by the stored mask and
  the same factor, and leaves the stored mask as it is. \<open>backward\<close> has no access to
  the random draws.
\<close>

theorem dropout_backward_reuses_mask:
  assumes "mode l \<noteq> ''eval''" and "0 \<le> d_rate l" and "d_rate l < 1"
      and "x = t_data (layer_x (Layer_forward l))"
      and "keep = random_choice coins (shape x)"
      and "well_shaped x" and "well_shaped dy" and "shape dy = shape x"
      and "t_grad succ_x = Some dy"
  shows "\<exists>l1 l2. Dropout_forward coins l = Inr l1
           \<and> Dropout_backward (l1\<lparr>succ_layer := Some succ_x\<rparr>) = Inr l2
           \<and> d_map l1 = Some keep \<and> d_map l2 = Some keep
           \<and> t_data (layer_y l1)
               = \<lparr>shape = shape x, buf = map2 (\<lambda>v k. v * k / (1 - d_rate l)) (buf x) (buf keep)\<rparr>
           \<and> t_grad (layer_x l2)
               = Some \<lparr>shape = shape dy, buf = map2 (\<lambda>g k. g * k / (1 - d_rate l)) (buf dy) (buf keep)\<rparr>"
proof -
  define l0 where "l0 = (Layer_forward l)\<lparr>d_map := Some keep\<rparr>"
  define y where "y = \<lparr>shape = shape x, buf = map2 (\<lambda>v k. v * k / (1 - d_rate l)) (buf x) (buf keep)\<rparr>"
  define l1 where "l1 = l0\<lparr>layer_y := (layer_y l0)\<lparr>t_data := y\<rparr>\<rparr>"
  have wm: "well_shaped keep" "shape keep = shape x"
    using assms(5) by (simp_all add: length_random_choice shape_random_choice)
  have mode_fw: "mode (Layer_forward l) = mode l" "d_rate (Layer_forward l) = d_rate l"
    by (simp_all add: Layer_forward_def split: option.splits)
  obtain xm where fw_scale: "np_binop (*) x keep = Inr xm"
      "np_binop (/) xm (scalar (1 - d_rate l)) = Inr y"
    using mask_scale [OF assms(6) wm] unfolding y_def by blast
  have fw: "Dropout_forward coins l = Inr l1"
    using assms(1) mode_fw assms(4,5) fw_scale
    by (simp add: Dropout_forward_def Let_def l1_def l0_def)
  define dx where "dx = \<lparr>shape = shape dy, buf = map2 (\<lambda>g k. g * k / (1 - d_rate l)) (buf dy) (buf keep)\<rparr>"
  define lb where "lb = Layer_backward (l1\<lparr>succ_layer := Some succ_x\<rparr>)"
  define l2 where "l2 = lb\<lparr>layer_x := (layer_x lb)\<lparr>t_grad := Some dx\<rparr>\<rparr>"
  have lb: "t_grad (layer_y lb) = Some dy" "d_map lb = Some keep" "d_rate lb = d_rate l"
    using assms(9) by (simp_all add: lb_def Layer_backward_def l1_def l0_def mode_fw)
  have "shape keep = shape dy"
    using wm(2) assms(8) by simp
  from mask_scale [OF assms(7) wm(1) this]
  obtain dym where bw_scale: "np_binop (*) dy keep = Inr dym"
      "np_binop (/) dym (scalar (1 - d_rate l)) = Inr dx"
    unfolding dx_def by blast
  have bw: "Dropout_backward (l1\<lparr>succ_layer := Some succ_x\<rparr>) = Inr l2"
    using lb bw_scale by (simp add: Dropout_backward_def Let_def l2_def lb_def [symmetric])
  have "d_map l1 = Some keep" "d_map l2 = Some keep" "t_data (layer_y l1) = y"
    "t_grad (layer_x l2) = Some dx"
    using lb by (simp_all add: l1_def l0_def l2_def)
  with fw bw show ?thesis
    unfolding y_def dx_def by blast
qed

theorem dropout_backward_reuses_mask_witness:
  "mode drop_example \<noteq> ''eval'' \<and>
   (\<exists>l1 l2. Dropout_forward (\<lambda>k. k = 0) drop_example = Inr l1
      \<and> Dropout_backward
           (l1\<lparr>succ_layer := Some \<lparr>t_data = \<lparr>shape = [2], buf = [0, 0]\<rparr>,
                                    t_grad = Some \<lparr>shape = [2], buf = [10, 20]\<rparr>\<rparr>\<rparr>) = Inr l2
      \<and> d_map l1 = Some \<lparr>shape = [2], buf = [1, 0]\<rparr>
      \<and> d_map l2 = Some \<lparr>shape = [2], buf = [1, 0]\<rparr>
      \<and> t_data (layer_y l1) = \<lparr>shape = [2], buf = [2, 0]\<rparr>
      \<and> t_grad (layer_x l2) = Some \<lparr>shape = [2], buf = [20, 0]\<rparr>)"
proof -
  let ?x = "\<lparr>shape = [2], buf = [1, 2 :: real]\<rparr>"
  let ?dy = "\<lparr>shape = [2], buf = [10, 20 :: real]\<rparr>"
  let ?sx = "\<lparr>t_data = \<lparr>shape = [2], buf = [0, 0]\<rparr>, t_grad = Some ?dy\<rparr>"
  have m: "mode drop_example \<noteq> ''eval''" "0 \<le> d_rate drop_example" "d_rate drop_example < 1"
    by (simp_all add: drop_example_def)
  have x: "?x = t_data (layer_x (Layer_forward drop_example))"
    by (simp add: drop_example_def Layer_forward_def)
  have kp: "\<lparr>shape = [2], buf = [1, 0 :: real]\<rparr> = random_choice (\<lambda>k. k = 0) (shape ?x)"
    by code_simp
  have w: "well_shaped ?x" "well_shaped ?dy" "shape ?dy = shape ?x"
    by (simp_all add: well_shaped_def)
  have g: "t_grad ?sx = Some ?dy"
    by simp
  from dropout_backward_reuses_mask [OF m x kp w g] m(1) show ?thesis
    by (simp add: drop_example_def)
qed

text \<open>
  C3, as the code has it. Linear's backward assigns \<open>x\<^sup>T @ dy\<close> to the gradient of
  the weight: the weight keeps its data, and whatever gradient it held before is
  replaced, not added to.
\<close>

theorem linear_backward_overwrites:
  assumes "Linear_backward l = Inr l'"
  shows "\<exists>w dy dw. param_w l = Some w
           \<and> t_grad (layer_y (Layer_backward l)) = Some dy
           \<and> np_matmul (np_transpose (t_data (layer_x l))) dy = Inr dw
           \<and> param_w l' = Some (w\<lparr>t_grad := Some dw\<rparr>)"
proof -
  have x: "t_data (layer_x (Layer_backward l)) = t_data (layer_x l)"
    by (simp add: Layer_backward_def split: option.splits)
  obtain w where w: "param_w (Layer_backward l) = Some w"
    using assms by (auto simp: Linear_backward_def Let_def split: option.splits)
  obtain dy where dy: "t_grad (layer_y (Layer_backward l)) = Some dy"
    using assms w by (auto simp: Linear_backward_def Let_def split: option.splits)
  obtain dx where dx: "np_matmul dy (np_transpose (t_data w)) = Inr dx"
    using assms w dy by (cases "np_matmul dy (np_transpose (t_data w))")
      (auto simp: Linear_backward_def Let_def)
  obtain dw where dw: "np_matmul (np_transpose (t_data (layer_x l))) dy = Inr dw"
    using assms w dy dx x by (cases "np_matmul (np_transpose (t_data (layer_x l))) dy")
      (auto simp: Linear_backward_def Let_def)
  have pw: "param_w (Layer_backward l) = param_w l"
    by (simp add: Layer_backward_def split: option.splits)
  have "param_w l' = Some (w\<lparr>t_grad := Some dw\<rparr>)"
    using assms w dy dx dw x
    by (auto simp: Linear_backward_def Let_def split: if_splits option.splits sum.splits
          elim!: ebind.elims)
  with w dy dw pw show ?thesis by auto
qed

theorem linear_backward_overwrites_witness:
  "\<exists>l'. Linear_backward lin_example = Inr l'
      \<and> param_w l' = Some \<lparr>t_data = \<lparr>shape = [1, 1], buf = [1]\<rparr>,
                           t_grad = Some \<lparr>shape = [1, 1], buf = [6]\<rparr>\<rparr>"
proof -
  have ok: "Linear_backward lin_example =
      Inr (lin_example\<lparr>layer_x := \<lparr>t_data = \<lparr>shape = [1, 1], buf = [2]\<rparr>,
                                    t_grad = Some \<lparr>shape = [1, 1], buf = [3]\<rparr>\<rparr>,
             layer_y := \<lparr>t_data = \<lparr>shape = [1, 1], buf = [2]\<rparr>,
                          t_grad = Some \<lparr>shape = [1, 1], buf = [3]\<rparr>\<rparr>,
             param_w := Some \<lparr>t_data = \<lparr>shape = [1, 1], buf = [1]\<rparr>,
                               t_grad = Some \<lparr>shape = [1, 1], buf = [6]\<rparr>\<rparr>\<rparr>)"
    by code_simp
  have mm: "np_matmul (np_transpose (t_data (layer_x lin_example))) \<lparr>shape = [1, 1], buf = [3]\<rparr>
      = Inr \<lparr>shape = [1, 1], buf = [6]\<rparr>"
    by code_simp
  from linear_backward_overwrites [OF ok] obtain w dy dw where
    "param_w lin_example = Some w"
    "t_grad (layer_y (Layer_backward lin_example)) = Some dy"
    "np_matmul (np_transpose (t_data (layer_x lin_example))) dy = Inr dw"
    "param_w (lin_example\<lparr>layer_x := \<lparr>t_data = \<lparr>shape = [1, 1], buf = [2]\<rparr>,
                                    t_grad = Some \<lparr>shape = [1, 1], buf = [3]\<rparr>\<rparr>,
             layer_y := \<lparr>t_data = \<lparr>shape = [1, 1], buf = [2]\<rparr>,
                          t_grad = Some \<lparr>shape = [1, 1], buf = [3]\<rparr>\<rparr>,
             param_w := Some \<lparr>t_data = \<lparr>shape = [1, 1], buf = [1]\<rparr>,
                               t_grad = Some \<lparr>shape = [1, 1], buf = [6]\<rparr>\<rparr>\<rparr>)
       = Some (w\<lparr>t_grad := Some dw\<rparr>)"
    by blast
  with ok show ?thesis
    by simp
qed

text \<open>
  C3, as the claim states it, fails: the weight of \<open>lin_example\<close> holds the gradient 5,
  \<open>x\<^sup>T @ dy\<close> is 6, and after backward the weight's gradient is 6, not the sum 11.
\<close>

theorem linear_backward_accumulates_counterexample:
  "map_option t_grad (param_w lin_example) = Some (Some \<lparr>shape = [1, 1], buf = [5]\<rparr>)
   \<and> map_sum id (\<lambda>l'. map_option t_grad (param_w l')) (Linear_backward lin_example)
       = Inr (Some (Some \<lparr>shape = [1, 1], buf = [6]\<rparr>))
   \<and> np_binop (+) \<lparr>shape = [1, 1], buf = [5]\<rparr> \<lparr>shape = [1, 1], buf = [6 :: real]\<rparr>
       = Inr \<lparr>shape = [1, 1], buf = [11]\<rparr>"
  by code_simp

section \<open>Convolution and MaxPooling at concrete inputs\<close>

lemma twiddle_one: "twiddle (Suc 0) k = 1"
  by (simp add: twiddle_def cis_multiple_2pi)

lemma fft2_1x1:
  "fft2 \<lparr>shape = [1, 1, 1, 1], buf = [a]\<rparr> [1, 1]
     = Inr \<lparr>shape = [1, 1, 1, 1], buf = [complex_of_real a]\<rparr>"
  by (simp add: fft2_def tabulate_def elem_at_def twiddle_one)

lemma fft2_crop_1x1:
  "fft2 \<lparr>shape = [1, 1, 2, 2], buf = [a, b, c, d]\<rparr> [1, 1]
     = Inr \<lparr>shape = [1, 1, 1, 1], buf = [complex_of_real a]\<rparr>"
  by (simp add: fft2_def tabulate_def elem_at_def twiddle_one)

lemma ifft2_1x1:
  "ifft2 \<lparr>shape = [1, 1, 1, 1, 1], buf = [z]\<rparr> = Inr \<lparr>shape = [1, 1, 1, 1, 1], buf = [z]\<rparr>"
  by (simp add: ifft2_def tabulate_def elem_at_def twiddle_one Let_def)

lemma mul_1x1:
  "np_binop (*) \<lparr>shape = [1, 1, 1, 1, 1], buf = [u]\<rparr> \<lparr>shape = [1, 1, 1, 1, 1], buf = [v::complex]\<rparr>
     = Inr \<lparr>shape = [1, 1, 1, 1, 1], buf = [u * v]\<rparr>"
  by (simp add: np_binop_def broadcast_shapes_def tabulate_def bget_def elem_at_def)

lemma convolve_1x1:
  "(ax1, ax2) \<in> {(1, 0), (2, 0), (1, 2)} \<Longrightarrow>
   convolve \<lparr>shape = [1, 1, 1, 1], buf = [a]\<rparr> \<lparr>shape = [1, 1, 1, 1], buf = [b]\<rparr> (ax1, ax2)
     = Inr \<lparr>shape = [1, 1, 1, 1, 1], buf = [a * b]\<rparr>"
  using fft2_1x1 [of a] fft2_1x1 [of b] ifft2_1x1 [of "complex_of_real a * complex_of_real b"]
    mul_1x1 [of "complex_of_real a" "complex_of_real b"]
  by (auto simp: convolve_def expand_dims_def Let_def)

lemma convolve_1x1_crop:
  "convolve \<lparr>shape = [1, 1, 1, 1], buf = [a]\<rparr> \<lparr>shape = [1, 1, 2, 2], buf = [b, c, d, e]\<rparr> (1, 0)
     = Inr \<lparr>shape = [1, 1, 1, 1, 1], buf = [a * b]\<rparr>"
  using fft2_1x1 [of a] fft2_crop_1x1 [of b c d e]
    ifft2_1x1 [of "complex_of_real a * complex_of_real b"]
    mul_1x1 [of "complex_of_real a" "complex_of_real b"]
  by (simp add: convolve_def expand_dims_def Let_def)

lemma conv_example_forward:
  "Convolution_forward valid_paddings conv_example
     = (set_y_data conv_example \<lparr>shape = [1, 1, 1, 1], buf = [3]\<rparr>, None)"
proof -
  have flip: "np_flip23 \<lparr>shape = [1, 1, 1, 1], buf = [1 :: real]\<rparr>
      = Inr \<lparr>shape = [1, 1, 1, 1], buf = [1]\<rparr>"
    by code_simp
  have sm: "np_sum \<lparr>shape = [1, 1, 1, 1, 1], buf = [3]\<rparr> [2]
      = Inr \<lparr>shape = [1, 1, 1, 1], buf = [3]\<rparr>"
    by code_simp
  have sl: "slice_from23 \<lparr>shape = [1, 1, 1, 1], buf = [3 :: real]\<rparr> 0 0
      = Inr \<lparr>shape = [1, 1, 1, 1], buf = [3]\<rparr>"
    by code_simp
  have bias: "np_binop (*) \<lparr>shape = [1], buf = [0 :: real]\<rparr> (full [1, 1] 1)
      = Inr \<lparr>shape = [1, 1], buf = [0]\<rparr>"
    by code_simp
  have md: "match_dims \<lparr>shape = [1, 1], buf = [0 :: real]\<rparr> 4 = \<lparr>shape = [1, 1, 1, 1], buf = [0]\<rparr>"
    by code_simp
  have add: "np_inplace (+) \<lparr>shape = [1, 1, 1, 1], buf = [3 :: real]\<rparr>
        \<lparr>shape = [1, 1, 1, 1], buf = [0]\<rparr>
      = Inr \<lparr>shape = [1, 1, 1, 1], buf = [3]\<rparr>"
    by code_simp
  show ?thesis
    using flip sm sl bias md add convolve_1x1 [of 1 0 3 1]
    by (simp add: Convolution_forward_def conv_example_def Layer_forward_def valid_paddings_def
          step_def set_y_data_def Let_def)
qed

lemma conv_example_backward:
  "Convolution_backward valid_paddings (set_y_data conv_example \<lparr>shape = [1, 1, 1, 1], buf = [3]\<rparr>)
     = (conv_example
          \<lparr>layer_x := \<lparr>t_data = \<lparr>shape = [1, 1, 1, 1], buf = [3]\<rparr>,
                        t_grad = Some \<lparr>shape = [1, 1, 1, 1], buf = [2]\<rparr>\<rparr>,
           layer_y := \<lparr>t_data = \<lparr>shape = [1, 1, 1, 1], buf = [3]\<rparr>,
                        t_grad = Some \<lparr>shape = [1, 1, 1, 1], buf = [2]\<rparr>\<rparr>,
           param_w := Some \<lparr>t_data = \<lparr>shape = [1, 1, 1, 1], buf = [1]\<rparr>,
                             t_grad = Some \<lparr>shape = [1, 1, 1, 1], buf = [6]\<rparr>\<rparr>,
           param_b := Some \<lparr>t_data = \<lparr>shape = [1], buf = [0]\<rparr>,
                             t_grad = Some \<lparr>shape = [1], buf = [3]\<rparr>\<rparr>\<rparr>, None)"
proof -
  have pad: "np_pad23 \<lparr>shape = [1, 1, 1, 1], buf = [2]\<rparr> (int_half 0)
      = Inr \<lparr>shape = [1, 1, 1, 1], buf = [2]\<rparr>"
    by code_simp
  have s1: "np_sum \<lparr>shape = [1, 1, 1, 1, 1], buf = [2]\<rparr> [1]
      = Inr \<lparr>shape = [1, 1, 1, 1], buf = [2]\<rparr>"
    by code_simp
  have roll: "np_roll23 \<lparr>shape = [1, 1, 1, 1], buf = [2 :: real]\<rparr>
      = Inr \<lparr>shape = [1, 1, 1, 1], buf = [2]\<rparr>"
    by code_simp
  have s0: "np_sum \<lparr>shape = [1, 1, 1, 1, 1], buf = [6]\<rparr> [0]
      = Inr \<lparr>shape = [1, 1, 1, 1], buf = [6]\<rparr>"
    by code_simp
  have sl: "slice_from23 \<lparr>shape = [1, 1, 1, 1], buf = [6 :: real]\<rparr> (- 1) (- 1)
      = Inr \<lparr>shape = [1, 1, 1, 1], buf = [6]\<rparr>"
    by code_simp
  have sb: "np_sum \<lparr>shape = [1, 1, 1, 1], buf = [3]\<rparr> [0, 2, 3] = Inr \<lparr>shape = [1], buf = [3]\<rparr>"
    by code_simp
  show ?thesis
    using pad s1 roll s0 sl sb convolve_1x1 [of 2 0 2 1] convolve_1x1 [of 1 2 3 2]
    by (simp add: Convolution_backward_def conv_example_def Layer_backward_def valid_paddings_def
          step_def set_y_data_def Let_def)
qed

text \<open>
  C1, the code at a failing input. The layer \<open>conv_example\<close> has the input 3, the
  weight 1 and the bias 0, so its forward output is 3; the gradient that arrives from
  the next layer is 2. After backward the gradient of the bias is 3, the sum of the
  forward output, where the sum of the arriving gradient over the batch and the two
  spatial axes is 2.
\<close>

theorem convolution_bias_gradient_at_example:
  "Convolution_forward valid_paddings conv_example
     = (set_y_data conv_example \<lparr>shape = [1, 1, 1, 1], buf = [3]\<rparr>, None)
   \<and> snd (Convolution_backward valid_paddings
            (fst (Convolution_forward valid_paddings conv_example))) = None
   \<and> t_grad (layer_y (fst (Convolution_backward valid_paddings
            (fst (Convolution_forward valid_paddings conv_example)))))
       = Some \<lparr>shape = [1, 1, 1, 1], buf = [2]\<rparr>
   \<and> map_option t_grad (param_b (fst (Convolution_backward valid_paddings
            (fst (Convolution_forward valid_paddings conv_example)))))
       = Some (Some \<lparr>shape = [1], buf = [3]\<rparr>)
   \<and> np_sum \<lparr>shape = [1, 1, 1, 1], buf = [2]\<rparr> [0, 2, 3] = Inr \<lparr>shape = [1], buf = [2]\<rparr>"
proof -
  have "np_sum \<lparr>shape = [1, 1, 1, 1], buf = [2]\<rparr> [0, 2, 3] = Inr \<lparr>shape = [1], buf = [2]\<rparr>"
    by code_simp
  with conv_example_forward conv_example_backward show ?thesis
    by simp
qed

text \<open>
  C2, the code at a failing input. The layer \<open>pool_example\<close> has a 3 by 3 input and
  a 2 by 2 window. Forward crops the input to 2 by 2; after backward the gradient of
  the input has the shape of the cropped input, 2 by 2, and not the 3 by 3 of the
  input: no zeros are put back for the positions that were cropped.
\<close>

theorem maxpooling_backward_shape_at_example:
  "map_sum id (\<lambda>l. (shape (t_data (layer_x l)), t_grad (layer_x l)))
       (ebind (MaxPooling_forward pool_example) MaxPooling_backward)
     = Inr ([1, 1, 3, 3], Some \<lparr>shape = [1, 1, 2, 2], buf = [0, 0, 0, 1]\<rparr>)"
  by code_simp

section \<open>Convolution: compile\<close>

lemma Convolution_forward_frame:
  assumes "Convolution_forward paddings l = (l', e)"
  shows "compiled l' = compiled l \<and> layer_i l' = layer_i l \<and> params l' = params l
       \<and> param_w l' = param_w l \<and> param_b l' = param_b l \<and> use_bias l' = use_bias l
       \<and> kernel_shape l' = kernel_shape l"
proof -
  have "\<exists>yy. l' = Layer_forward l \<or> l' = (Layer_forward l)\<lparr>layer_y := yy\<rparr>"
    using assms
    by (auto simp: Convolution_forward_def step_def Let_def set_y_data_def
          split: option.splits sum.splits list.splits if_splits)
  then show ?thesis
    by (auto simp: Layer_forward_def split: option.splits)
qed

text \<open>
  C5, as the code has it. \<open>compile\<close> links the layer, creates the weights, the bias
  and the parameter list and runs forward; only then does it compare the extents of
  the output with the kernel. When forward completes, \<open>compile\<close> raises a
  \<open>ValueError\<close> exactly when the output is smaller than the kernel in a spatial
  dimension, and the layer it leaves behind is the one forward left: compiled, with
  its weights, bias, parameter list and cached output set.
\<close>

theorem convolution_compile_validates_after_forward:
  assumes "shape (t_data prev_y) = [n, c, h, w]"
      and "l1 = (Layer_compile l i (Some prev_y) succ)
                  \<lparr>param_w := Some (init_fn [nat (conv_out_channels l), c,
                                             fst (kernel_shape l), snd (kernel_shape l)]
                                            (c * fst (kernel_shape l) * snd (kernel_shape l)))\<rparr>"
      and "l3 = (if use_bias l then l1\<lparr>param_b := Some (zeros [nat (conv_out_channels l)])\<rparr> else l1)
                  \<lparr>params := [ref_w, ref_b]\<rparr>"
      and "Convolution_forward paddings l3 = (l4, None)"
      and "shape (t_data (layer_y l4)) = [yn, yc, y_y, y_x]"
  shows "Convolution_compile paddings init_fn l i (Some prev_y) succ
           = (l4, if y_y < fst (kernel_shape l) \<or> y_x < snd (kernel_shape l)
                  then Some ValueError else None)
       \<and> compiled l4 \<and> layer_i l4 = Some i \<and> params l4 = [ref_w, ref_b]
       \<and> param_w l4 = param_w l1 \<and> param_w l4 \<noteq> None \<and> param_b l4 = param_b l3"
proof -
  have frame: "compiled l4 = compiled l3" "layer_i l4 = layer_i l3" "params l4 = params l3"
    "param_w l4 = param_w l3" "param_b l4 = param_b l3"
    using Convolution_forward_frame [OF assms(4)] by simp_all
  have l3: "compiled l3" "layer_i l3 = Some i" "params l3 = [ref_w, ref_b]"
    "param_w l3 = param_w l1" "param_w l1 \<noteq> None"
    using assms(2,3) by (simp_all add: Layer_compile_def)
  have "Convolution_compile paddings init_fn l i (Some prev_y) succ
      = (l4, if y_y < fst (kernel_shape l) \<or> y_x < snd (kernel_shape l)
             then Some ValueError else None)"
    using assms(1,5) assms(4) [unfolded assms(3) assms(2)]
    by (cases "use_bias l") (simp_all add: Convolution_compile_def Let_def Layer_compile_def)
  with frame l3 show ?thesis by simp
qed

lemma conv_new_forward:
  "Convolution_forward valid_paddings
     ((Layer_compile conv_new 0 (Some prev_example) None)
        \<lparr>param_w := Some (ones_init [1, 1, 2, 2] 4), param_b := Some (zeros [1]),
         params := [ref_w, ref_b]\<rparr>)
   = (set_y_data ((Layer_compile conv_new 0 (Some prev_example) None)
        \<lparr>layer_x := \<lparr>t_data = \<lparr>shape = [1, 1, 1, 1], buf = [1]\<rparr>, t_grad = None\<rparr>,
         param_w := Some (ones_init [1, 1, 2, 2] 4), param_b := Some (zeros [1]),
         params := [ref_w, ref_b]\<rparr>) \<lparr>shape = [1, 1, 0, 0], buf = []\<rparr>, None)"
proof -
  have w: "t_data (ones_init [1, 1, 2, 2] 4) = \<lparr>shape = [1, 1, 2, 2], buf = [1, 1, 1, 1]\<rparr>"
    by code_simp
  have b: "t_data (zeros [1]) = \<lparr>shape = [1], buf = [0]\<rparr>"
    by code_simp
  have flip: "np_flip23 \<lparr>shape = [1, 1, 2, 2], buf = [1, 1, 1, 1 :: real]\<rparr>
      = Inr \<lparr>shape = [1, 1, 2, 2], buf = [1, 1, 1, 1]\<rparr>"
    by code_simp
  have sm: "np_sum \<lparr>shape = [1, 1, 1, 1, 1], buf = [1]\<rparr> [2]
      = Inr \<lparr>shape = [1, 1, 1, 1], buf = [1]\<rparr>"
    by code_simp
  have sl: "slice_from23 \<lparr>shape = [1, 1, 1, 1], buf = [1 :: real]\<rparr> 1 1
      = Inr \<lparr>shape = [1, 1, 0, 0], buf = []\<rparr>"
    by code_simp
  have bias: "np_binop (*) \<lparr>shape = [1], buf = [0 :: real]\<rparr> (full [1, 1] 1)
      = Inr \<lparr>shape = [1, 1], buf = [0]\<rparr>"
    by code_simp
  have md: "match_dims \<lparr>shape = [1, 1], buf = [0 :: real]\<rparr> 4 = \<lparr>shape = [1, 1, 1, 1], buf = [0]\<rparr>"
    by code_simp
  have add: "np_inplace (+) \<lparr>shape = [1, 1, 0, 0], buf = [] :: real list\<rparr>
        \<lparr>shape = [1, 1, 1, 1], buf = [0]\<rparr>
      = Inr \<lparr>shape = [1, 1, 0, 0], buf = []\<rparr>"
    by code_simp
  show ?thesis
    using w b flip sm sl bias md add convolve_1x1_crop [of 1 1 1 1 1]
    by (simp add: Convolution_forward_def conv_new_def prev_example_def Layer_forward_def
          Layer_compile_def valid_paddings_def step_def set_y_data_def Let_def empty_tensor_def)
qed

theorem convolution_compile_validates_after_forward_witness:
  "\<exists>l4. Convolution_compile valid_paddings ones_init conv_new 0 (Some prev_example) None
          = (l4, Some ValueError)
      \<and> shape (t_data (layer_y l4)) = [1, 1, 0, 0]
      \<and> compiled l4 \<and> layer_i l4 = Some 0 \<and> params l4 = [ref_w, ref_b] \<and> param_w l4 \<noteq> None"
proof -
  let ?l1 = "(Layer_compile conv_new 0 (Some prev_example) None)
      \<lparr>param_w := Some (ones_init [nat (conv_out_channels conv_new), 1,
                                    fst (kernel_shape conv_new), snd (kernel_shape conv_new)]
                                   (1 * fst (kernel_shape conv_new) * snd (kernel_shape conv_new)))\<rparr>"
  let ?l3 = "(if use_bias conv_new
              then ?l1\<lparr>param_b := Some (zeros [nat (conv_out_channels conv_new)])\<rparr> else ?l1)
      \<lparr>params := [ref_w, ref_b]\<rparr>"
  let ?l4 = "set_y_data ((Layer_compile conv_new 0 (Some prev_example) None)
        \<lparr>layer_x := \<lparr>t_data = \<lparr>shape = [1, 1, 1, 1], buf = [1]\<rparr>, t_grad = None\<rparr>,
         param_w := Some (ones_init [1, 1, 2, 2] 4), param_b := Some (zeros [1]),
         params := [ref_w, ref_b]\<rparr>) \<lparr>shape = [1, 1, 0, 0], buf = []\<rparr>"
  have sh: "shape (t_data prev_example) = [1, 1, 1, 1]"
    by (simp add: prev_example_def)
  have l3: "?l3 = (Layer_compile conv_new 0 (Some prev_example) None)
        \<lparr>param_w := Some (ones_init [1, 1, 2, 2] 4), param_b := Some (zeros [1]),
         params := [ref_w, ref_b]\<rparr>"
    by (simp add: conv_new_def Layer_compile_def)
  have fw: "Convolution_forward valid_paddings ?l3 = (?l4, None)"
    unfolding l3 by (rule conv_new_forward)
  have y: "shape (t_data (layer_y ?l4)) = [1, 1, 0, 0]"
    by (simp add: set_y_data_def)
  from convolution_compile_validates_after_forward
    [where l = conv_new and i = 0 and prev_y = prev_example and succ = None
       and init_fn = ones_init and paddings = valid_paddings and ?l1.0 = ?l1 and ?l3.0 = ?l3,
     OF sh refl refl fw y] y
  show ?thesis
    by (simp add: conv_new_def)
qed

text \<open>
  C5, as the claim states it, fails in its second half. Compiling \<open>conv_new\<close>, a 2 by 2
  kernel on a 1 by 1 input, raises the \<open>ValueError\<close>; the layer was not compiled, had
  no weights, no bias, no parameters and an empty output before, and is compiled, has
  weights, bias and parameter list and a cached output when the error is raised.
\<close>

theorem convolution_compile_mutates_counterexample:
  "snd (Convolution_compile valid_paddings ones_init conv_new 0 (Some prev_example) None)
     = Some ValueError
   \<and> \<not> compiled conv_new \<and> param_w conv_new = None \<and> param_b conv_new = None
   \<and> params conv_new = [] \<and> layer_y conv_new = empty_tensor
   \<and> compiled (fst (Convolution_compile valid_paddings ones_init conv_new 0 (Some prev_example) None))
   \<and> param_w (fst (Convolution_compile valid_paddings ones_init conv_new 0 (Some prev_example) None))
       = Some (ones_init [1, 1, 2, 2] 4)
   \<and> param_b (fst (Convolution_compile valid_paddings ones_init conv_new 0 (Some prev_example) None))
       = Some (zeros [1])
   \<and> params (fst (Convolution_compile valid_paddings ones_init conv_new 0 (Some prev_example) None))
       = [ref_w, ref_b]
   \<and> t_data (layer_y (fst (Convolution_compile valid_paddings ones_init conv_new 0
                               (Some prev_example) None)))
       = \<lparr>shape = [1, 1, 0, 0], buf = []\<rparr>"
proof -
  have "Convolution_compile valid_paddings ones_init conv_new 0 (Some prev_example) None
      = (set_y_data ((Layer_compile conv_new 0 (Some prev_example) None)
          \<lparr>layer_x := \<lparr>t_data = \<lparr>shape = [1, 1, 1, 1], buf = [1]\<rparr>, t_grad = None\<rparr>,
           param_w := Some (ones_init [1, 1, 2, 2] 4), param_b := Some (zeros [1]),
           params := [ref_w, ref_b]\<rparr>) \<lparr>shape = [1, 1, 0, 0], buf = []\<rparr>, Some ValueError)"
    using conv_new_forward
    by (simp add: Convolution_compile_def Let_def conv_new_def prev_example_def Layer_compile_def
          set_y_data_def)
  then show ?thesis
    by (simp add: conv_new_def set_y_data_def Layer_compile_def)
qed

section \<open>Parallel container\<close>

lemma ebind_eq_Inr: "ebind r f = Inr v \<longleftrightarrow> (\<exists>a. r = Inr a \<and> f a = Inr v)"
  by (cases r) auto

lemma ebind_assoc: "ebind (ebind r f) g = ebind r (\<lambda>x. ebind (f x) g)"
  by (cases r) auto

lemma call_each_nth:
  "call_each ms x = Inr (ys, ms') \<Longrightarrow>
     length ys = length ms \<and> length ms' = length ms \<and>
     (\<forall>i<length ms. apply_call (ms ! i) x = Inr (ys ! i, ms' ! i))"
proof (induction ms arbitrary: ys ms')
  case Nil
  then show ?case by simp
next
  case (Cons m ms)
  from Cons.prems obtain y m' ys0 ms0 where
    m: "apply_call m x = Inr (y, m')" and rest: "call_each ms x = Inr (ys0, ms0)"
    and eq: "ys = y # ys0" "ms' = m' # ms0"
    by (auto simp: ebind_eq_Inr)
  from Cons.IH [OF rest] m eq show ?case
    by (auto simp: nth_Cons split: nat.splits)
qed

lemma np_concatenate_Inr:
  assumes "np_concatenate ys axis = Inr y"
  shows "ys \<noteq> [] \<and> (\<exists>ax. norm_axis axis (length (shape y)) = Some ax
           \<and> (\<forall>v\<in>set ys. length (shape v) = length (shape y))
           \<and> shape y ! ax = sum_list (map (\<lambda>v. shape v ! ax) ys))"
proof (cases ys)
  case Nil
  with assms show ?thesis by (simp add: np_concatenate_def)
next
  case (Cons a rest)
  obtain ax where ax: "norm_axis axis (length (shape a)) = Some ax"
    using assms Cons by (cases "norm_axis axis (length (shape a))") (simp_all add: np_concatenate_def)
  define ok where "ok = list_all (\<lambda>b. length (shape b) = length (shape a)
        \<and> (shape b)[ax := 0] = (shape a)[ax := 0]) rest"
  define r where "r = tabulate ((shape a)[ax := sum_list (map (\<lambda>b. shape b ! ax) ys)])
                     (\<lambda>idx. case locate (map (\<lambda>b. shape b ! ax) ys) (idx ! ax) of
                              (k, r) \<Rightarrow> elem_at (ys ! k) (idx[ax := r]))"
  have unfold: "np_concatenate ys axis = (if ok then Inr r else Inl ValueError)"
    unfolding np_concatenate_def ok_def r_def Cons list.case ax option.case by (rule refl)
  with assms have ok: ok and y: "y = r"
    by (simp_all split: if_splits)
  have sh: "shape y = (shape a)[ax := sum_list (map (\<lambda>b. shape b ! ax) ys)]"
    unfolding y r_def by (simp add: tabulate_def)
  have lt: "ax < length (shape a)"
    using ax by (simp add: norm_axis_def split: if_splits)
  have len: "length (shape y) = length (shape a)"
    unfolding sh by simp
  have "\<forall>v\<in>set rest. length (shape v) = length (shape a)"
    using ok unfolding ok_def list_all_iff by blast
  then have all: "\<forall>v\<in>set ys. length (shape v) = length (shape y)"
    unfolding Cons len by simp
  have total: "shape y ! ax = sum_list (map (\<lambda>v. shape v ! ax) ys)"
    unfolding sh using lt by (rule nth_list_update_eq)
  have ne: "ys \<noteq> []"
    unfolding Cons by simp
  have "norm_axis axis (length (shape y)) = Some ax"
    unfolding len by (rule ax)
  with ne all total show ?thesis
    by blast
qed

lemma out_lens_of_map:
  "\<forall>v\<in>set ys. norm_axis axis (length (shape v)) = Some ax \<Longrightarrow>
     out_lens_of axis ys = Inr (map (\<lambda>v. shape v ! ax) ys)"
  by (induction ys) (simp_all add: out_len_def)

lemma length_splits_of: "length (splits_of es) = length es - 1"
  by (simp add: splits_of_def)

lemma div_points_nth:
  assumes "i < length es"
  shows "([0] @ splits_of es @ [L]) ! i = sum_list (take i es)"
proof (cases i)
  case 0
  then show ?thesis by simp
next
  case (Suc j)
  with assms have "j < length (splits_of es)"
    by (simp add: length_splits_of)
  with Suc assms show ?thesis
    by (simp add: nth_append splits_of_def)
qed

lemma div_points_last:
  assumes "es \<noteq> []"
  shows "([0] @ splits_of es @ [L]) ! length es = L"
proof -
  have "length ([0] @ splits_of es) = length es"
    using assms by (cases es) (simp_all add: length_splits_of)
  then show ?thesis
    by (metis append.assoc nth_append_length)
qed

lemma np_split_chunks:
  assumes "norm_axis axis (length (shape dy)) = Some ax" and "es \<noteq> []"
  shows "np_split dy (splits_of es) axis
     = Inr (map (\<lambda>i. slice_axis dy ax (sum_list (take i es))
                      (if Suc i = length es then shape dy ! ax else sum_list (take (Suc i) es)))
                [0..<length es])"
proof -
  have len: "Suc (length (splits_of es)) = length es"
    using assms(2) by (cases es) (simp_all add: length_splits_of)
  have "slice_axis dy ax (([0] @ splits_of es @ [shape dy ! ax]) ! i)
           (([0] @ splits_of es @ [shape dy ! ax]) ! Suc i)
      = slice_axis dy ax (sum_list (take i es))
           (if Suc i = length es then shape dy ! ax else sum_list (take (Suc i) es))"
    if "i < length es" for i
  proof (cases "Suc i = length es")
    case True
    with that assms(2) show ?thesis
      using div_points_nth [OF that, of "shape dy ! ax"] div_points_last [OF assms(2), of "shape dy ! ax"]
      by simp
  next
    case False
    with that have "Suc i < length es" by simp
    from div_points_nth [OF that, of "shape dy ! ax"] div_points_nth [OF this, of "shape dy ! ax"] False
    show ?thesis by simp
  qed
  then have "map (\<lambda>i. slice_axis dy ax (([0] @ splits_of es @ [shape dy ! ax]) ! i)
           (([0] @ splits_of es @ [shape dy ! ax]) ! Suc i)) [0..<length es]
      = map (\<lambda>i. slice_axis dy ax (sum_list (take i es))
                      (if Suc i = length es then shape dy ! ax else sum_list (take (Suc i) es)))
                [0..<length es]"
    by (intro map_cong refl) simp
  with assms(1) len show ?thesis
    by (simp add: np_split_def Let_def del: append.simps upt_Suc)
qed

lemma backward_chunks_steps:
  assumes "i + length chunks = length ms"
      and "length gs = length chunks" and "length ns = length chunks"
      and "\<forall>j<length chunks. apply_backward (ms ! (i + j)) (chunks ! j) = Inr (gs ! j, ns ! j)"
  shows "backward_chunks i chunks ms dx = ebind (acc_all dx gs) (\<lambda>d. Inr (d, take i ms @ ns))"
  using assms
proof (induction chunks arbitrary: i ms dx gs ns)
  case Nil
  then show ?case by simp
next
  case (Cons ch rest)
  from Cons.prems(2,3) obtain g gs' n ns' where gs: "gs = g # gs'" and ns: "ns = n # ns'"
    by (cases gs; cases ns) auto
  have i: "i < length ms"
    using Cons.prems(1) by simp
  have first: "apply_backward (ms ! i) ch = Inr (g, n)"
    using Cons.prems(4) gs ns by (auto dest: spec [of _ 0])
  have later: "\<forall>j<length rest. apply_backward ((ms[i := n]) ! (Suc i + j)) (rest ! j) = Inr (gs' ! j, ns' ! j)"
  proof (intro allI impI)
    fix j assume "j < length rest"
    with Cons.prems(4) [rule_format, of "Suc j"] gs ns
    show "apply_backward ((ms[i := n]) ! (Suc i + j)) (rest ! j) = Inr (gs' ! j, ns' ! j)"
      by simp
  qed
  have tk: "take (Suc i) (ms[i := n]) @ ns' = take i ms @ ns"
    using i ns by (simp add: take_Suc_conv_app_nth)
  have "backward_chunks (Suc i) rest (ms[i := n]) d
      = ebind (acc_all d gs') (\<lambda>d'. Inr (d', take (Suc i) (ms[i := n]) @ ns'))" for d
    using Cons.prems gs ns later by (intro Cons.IH) simp_all
  then have ih: "backward_chunks (Suc i) rest (ms[i := n])
      = (\<lambda>d. ebind (acc_all d gs') (\<lambda>d'. Inr (d', take i ms @ ns)))"
    unfolding tk by (rule ext)
  have "backward_chunks i (ch # rest) ms dx
      = ebind (acc_add dx g) (backward_chunks (Suc i) rest (ms[i := n]))"
    using i first by simp
  also have "\<dots> = ebind (acc_all dx gs) (\<lambda>d. Inr (d, take i ms @ ns))"
    unfolding ih gs by (simp add: ebind_assoc)
  finally show ?case .
qed

lemma acc_all_Array:
  assumes "well_shaped a" and "shape a = s" and "\<forall>g\<in>set gs. well_shaped g \<and> shape g = s"
  shows "acc_all (Array a) gs
     = Inr (Array \<lparr>shape = s, buf = map (\<lambda>j. buf a ! j + (\<Sum>g\<leftarrow>gs. buf g ! j)) [0..<prod_list s]\<rparr>)"
  using assms
proof (induction gs arbitrary: a)
  case Nil
  have "map (\<lambda>j. buf a ! j) [0..<length (buf a)] = buf a"
    by (rule map_nth)
  with Nil show ?case
    by (simp add: well_shaped_def ndarray_eta)
next
  case (Cons g gs)
  define a' where "a' = \<lparr>shape = s, buf = map2 (+) (buf a) (buf g)\<rparr>"
  have step: "np_inplace (+) a g = Inr a'"
    using Cons.prems by (simp add: np_inplace_def np_binop_same_shape a'_def)
  have wf': "well_shaped a'" "shape a' = s"
    using Cons.prems by (simp_all add: a'_def well_shaped_def)
  have "buf a' ! j + (\<Sum>g\<leftarrow>gs. buf g ! j) = buf a ! j + (\<Sum>g\<leftarrow>g # gs. buf g ! j)"
    if "j < prod_list s" for j
    using that Cons.prems by (simp add: a'_def well_shaped_def)
  then have "map (\<lambda>j. buf a' ! j + (\<Sum>g\<leftarrow>gs. buf g ! j)) [0..<prod_list s]
      = map (\<lambda>j. buf a ! j + (\<Sum>g\<leftarrow>g # gs. buf g ! j)) [0..<prod_list s]"
    by (intro map_cong refl) simp
  with Cons.IH [OF wf'] Cons.prems(3) step show ?case
    by simp
qed

lemma acc_all_from_zero:
  assumes "gs \<noteq> []" and "\<forall>g\<in>set gs. well_shaped g \<and> shape g = s"
  shows "acc_all (PyFloat 0) gs
     = Inr (Array \<lparr>shape = s, buf = map (\<lambda>j. \<Sum>g\<leftarrow>gs. buf g ! j) [0..<prod_list s]\<rparr>)"
proof -
  from assms(1) obtain g gs' where gs: "gs = g # gs'" by (cases gs) auto
  have "acc_add (PyFloat 0) g = Inr (Array g)"
    using assms(2) gs by (simp add: np_binop_scalar_left map_add_zero ndarray_eta)
  moreover have "acc_all (Array g) gs'
      = Inr (Array \<lparr>shape = s, buf = map (\<lambda>j. buf g ! j + (\<Sum>g\<leftarrow>gs'. buf g ! j)) [0..<prod_list s]\<rparr>)"
    using assms(2) gs by (intro acc_all_Array) simp_all
  ultimately show ?thesis
    using gs by simp
qed

lemma parallel_call_Inr:
  assumes "parallel_call c0 x = Inr (y, c)"
  shows "\<exists>ys ms. call_each (par_modules c0) x = Inr (ys, ms)
           \<and> np_concatenate ys (concat_axis c0) = Inr y
           \<and> c = c0\<lparr>par_modules := ms,
                     par_backward := (if par_training c0 then Some ys else par_backward c0),
                     par_y := Some y\<rparr>"
proof -
  from assms obtain r where r: "call_each (par_modules c0) x = Inr r"
    and rest: "(case r of (ys, ms) \<Rightarrow>
        ebind (np_concatenate ys (concat_axis c0)) (\<lambda>y.
          Inr (y, c0\<lparr>par_modules := ms,
                     par_backward := (if par_training c0 then Some ys else par_backward c0),
                     par_y := Some y\<rparr>))) = Inr (y, c)"
    unfolding parallel_call_def ebind_eq_Inr by blast
  obtain ys ms where p: "r = (ys, ms)" by (cases r)
  from rest obtain y' where "np_concatenate ys (concat_axis c0) = Inr y'"
    and "Inr (y', c0\<lparr>par_modules := ms,
                     par_backward := (if par_training c0 then Some ys else par_backward c0),
                     par_y := Some y'\<rparr>) = Inr (y, c)"
    unfolding p prod.case ebind_eq_Inr by blast
  with r p show ?thesis by auto
qed

lemma parallel_forward_backward:
  assumes "par_training c0" and "parallel_call c0 x = Inr (y, c)"
      and "length (shape dy) = length (shape y)"
  shows "\<exists>ys ax. call_each (par_modules c0) x = Inr (ys, par_modules c)
           \<and> np_concatenate ys (concat_axis c0) = Inr y
           \<and> norm_axis (concat_axis c0) (length (shape y)) = Some ax
           \<and> (\<forall>gs ns s.
                 length gs = length ys \<and> length ns = length ys
                 \<and> (\<forall>i<length ys.
                       apply_backward (par_modules c ! i)
                         (slice_axis dy ax (sum_list (take i (map (\<lambda>v. shape v ! ax) ys)))
                            (if Suc i = length ys then shape dy ! ax
                             else sum_list (take (Suc i) (map (\<lambda>v. shape v ! ax) ys))))
                       = Inr (gs ! i, ns ! i))
                 \<and> (\<forall>g\<in>set gs. well_shaped g \<and> shape g = s)
                 \<longrightarrow> parallel_backward c dy
                       = Inr (Array \<lparr>shape = s,
                                      buf = map (\<lambda>j. \<Sum>g\<leftarrow>gs. buf g ! j) [0..<prod_list s]\<rparr>,
                              c\<lparr>par_modules := ns, par_dy := Some dy\<rparr>))"
proof -
  from parallel_call_Inr [OF assms(2)] assms(1) obtain ys ms where
    ce: "call_each (par_modules c0) x = Inr (ys, ms)"
    and cat: "np_concatenate ys (concat_axis c0) = Inr y"
    and c: "c = c0\<lparr>par_modules := ms, par_backward := Some ys, par_y := Some y\<rparr>"
    by auto
  have len_ms: "length ys = length ms"
    using call_each_nth [OF ce] by simp
  from np_concatenate_Inr [OF cat] obtain ax where ne: "ys \<noteq> []"
    and ax: "norm_axis (concat_axis c0) (length (shape y)) = Some ax"
    and ranks: "\<forall>v\<in>set ys. length (shape v) = length (shape y)"
    by blast
  define es where "es = map (\<lambda>v. shape v ! ax) ys"
  have es_len: "length es = length ys" "es \<noteq> []"
    using ne by (simp_all add: es_def)
  have lens: "out_lens_of (concat_axis c0) ys = Inr es"
    unfolding es_def using ranks ax by (intro out_lens_of_map) simp
  have ax_dy: "norm_axis (concat_axis c0) (length (shape dy)) = Some ax"
    using ax assms(3) by simp
  define chunks where "chunks = map (\<lambda>i. slice_axis dy ax (sum_list (take i es))
      (if Suc i = length es then shape dy ! ax else sum_list (take (Suc i) es))) [0..<length es]"
  have split: "np_split dy (splits_of es) (concat_axis c0) = Inr chunks"
    unfolding chunks_def by (rule np_split_chunks [OF ax_dy es_len(2)])
  have chunks_len: "length chunks = length ys"
    by (simp add: chunks_def es_len)
  have result: "parallel_backward c dy
      = Inr (Array \<lparr>shape = s, buf = map (\<lambda>j. \<Sum>g\<leftarrow>gs. buf g ! j) [0..<prod_list s]\<rparr>,
             c\<lparr>par_modules := ns, par_dy := Some dy\<rparr>)"
    if gl: "length gs = length ys" and nl: "length ns = length ys"
      and each: "\<forall>i<length ys.
          apply_backward (par_modules c ! i)
            (slice_axis dy ax (sum_list (take i es))
               (if Suc i = length ys then shape dy ! ax else sum_list (take (Suc i) es)))
          = Inr (gs ! i, ns ! i)"
      and shaped: "\<forall>g\<in>set gs. well_shaped g \<and> shape g = s"
    for gs ns s
  proof -
    have "\<forall>j<length chunks. apply_backward (ms ! (0 + j)) (chunks ! j) = Inr (gs ! j, ns ! j)"
    proof (intro allI impI)
      fix j assume "j < length chunks"
      then have j: "j < length ys"
        using chunks_len by simp
      have "chunks ! j = slice_axis dy ax (sum_list (take j es))
          (if Suc j = length ys then shape dy ! ax else sum_list (take (Suc j) es))"
        using j by (simp add: chunks_def es_len)
      moreover have "par_modules c ! j = ms ! (0 + j)"
        using c by simp
      ultimately show "apply_backward (ms ! (0 + j)) (chunks ! j) = Inr (gs ! j, ns ! j)"
        using each [rule_format, OF j] by simp
    qed
    then have "backward_chunks 0 chunks ms (PyFloat 0)
        = ebind (acc_all (PyFloat 0) gs) (\<lambda>d. Inr (d, take 0 ms @ ns))"
      using chunks_len len_ms gl nl by (intro backward_chunks_steps) simp_all
    moreover have "gs \<noteq> []"
      using gl ne by auto
    ultimately have loop: "backward_chunks 0 chunks ms (PyFloat 0)
        = Inr (Array \<lparr>shape = s, buf = map (\<lambda>j. \<Sum>g\<leftarrow>gs. buf g ! j) [0..<prod_list s]\<rparr>, ns)"
      using acc_all_from_zero [OF _ shaped] by simp
    show ?thesis
      unfolding parallel_backward_def using c lens split loop by simp
  qed
  have "par_modules c = ms"
    using c by simp
  with ce cat ax result show ?thesis
    unfolding es_def by blast
qed

lemma well_shaped_tabulate: "well_shaped (tabulate s f)"
  by (simp add: well_shaped_def tabulate_def length_indices)

lemma np_matmul_shape:
  assumes "shape p = [n, k]" and "shape q = [k, m]"
  shows "\<exists>r. np_matmul p q = Inr r \<and> shape r = [n, m] \<and> well_shaped r"
  using assms by (simp add: np_matmul_def well_shaped_tabulate) (simp add: tabulate_def)

lemma np_transpose_shape: "shape p = [n, k] \<Longrightarrow> shape (np_transpose p) = [k, n]"
  by (simp add: np_transpose_def Let_def tabulate_def)

lemma np_binop_shape:
  assumes "broadcast_shapes (shape p) (shape q) = Some s"
  shows "\<exists>r. np_binop f p q = Inr r \<and> shape r = s \<and> well_shaped r"
  using assms by (simp add: np_binop_def well_shaped_tabulate) (simp add: tabulate_def)

lemma broadcast_row: "broadcast_shapes [n, m] [m] = Some [n, m]"
  by (simp add: broadcast_shapes_def)

lemma np_sum_rows: "shape p = [n, m] \<Longrightarrow> \<exists>r. np_sum p [0] = Inr r"
  by (simp add: np_sum_def Let_def)

lemma affine_call_shape:
  assumes "shape x = [n, d]" and "shape (aff_w st) = [d, a]"
      and "aff_b st = None \<or> (\<exists>v. aff_b st = Some v \<and> shape v = [a])"
  shows "\<exists>y. affine_call st x = Inr (y, st\<lparr>aff_x := Some x\<rparr>) \<and> shape y = [n, a]"
proof -
  from np_matmul_shape [OF assms(1,2)] obtain xw where
    xw: "np_matmul x (aff_w st) = Inr xw" "shape xw = [n, a]" by blast
  show ?thesis
  proof (cases "aff_b st")
    case None
    with xw show ?thesis by (simp add: affine_call_def)
  next
    case (Some v)
    with assms(3) have "shape v = [a]" by simp
    then have "broadcast_shapes (shape xw) (shape v) = Some [n, a]"
      using xw(2) by (simp add: broadcast_row)
    from np_binop_shape [OF this, of "(+)"] obtain y where
      "np_binop (+) xw v = Inr y" "shape y = [n, a]" by blast
    with xw Some show ?thesis by (simp add: affine_call_def)
  qed
qed

lemma affine_backward_shape:
  assumes "aff_x st = Some x" and "shape x = [n, d]" and "shape (aff_w st) = [d, a]"
      and "shape dy = [n, a]" and "aff_w_grad st = None" and "aff_b_grad st = None"
  shows "\<exists>dx st'. affine_backward st dy = Inr (dx, st') \<and> shape dx = [n, d] \<and> well_shaped dx"
proof -
  have wt: "shape (np_transpose (aff_w st)) = [a, d]"
    using assms(3) by (rule np_transpose_shape)
  have xt: "shape (np_transpose x) = [d, n]"
    using assms(2) by (rule np_transpose_shape)
  from np_matmul_shape [OF assms(4) wt] obtain dx where
    dx: "np_matmul dy (np_transpose (aff_w st)) = Inr dx" "shape dx = [n, d]" "well_shaped dx"
    by blast
  from np_matmul_shape [OF xt assms(4)] obtain dw where
    dw: "np_matmul (np_transpose x) dy = Inr dw" by blast
  from np_sum_rows [OF assms(4)] obtain db where db: "np_sum dy [0] = Inr db" by blast
  have "\<exists>st'. affine_backward st dy = Inr (dx, st')"
    using assms(1,5,6) dx(1) dw db
    by (cases "aff_b st") (simp_all add: affine_backward_def accumulate_def)
  with dx show ?thesis by blast
qed

lemma slice_axis_shape:
  "shape (slice_axis p ax st en)
     = (shape p)[ax := max (min st (shape p ! ax)) (min en (shape p ! ax)) - min st (shape p ! ax)]"
  by (simp add: slice_axis_def Let_def tabulate_def)

lemma two_affine_children:
  assumes "shape x = [n, d]" and "shape w1 = [d, a]" and "shape w2 = [d, b]"
      and "b1 = None \<or> (\<exists>v. b1 = Some v \<and> shape v = [a])"
      and "b2 = None \<or> (\<exists>v. b2 = Some v \<and> shape v = [b])"
      and "par_modules c0 = [affine_module w1 b1, affine_module w2 b2]"
      and "concat_axis c0 = - 1" and "par_training c0"
  shows "\<exists>y c. parallel_call c0 x = Inr (y, c) \<and> shape y = [n, a + b]
           \<and> (\<forall>dy. shape dy = [n, a + b] \<longrightarrow>
                 (\<exists>g c'. parallel_backward c dy = Inr (Array g, c') \<and> shape g = [n, d]))"
proof -
  let ?s1 = "m_state (affine_module w1 b1)" and ?s2 = "m_state (affine_module w2 b2)"
  have st: "aff_w ?s1 = w1" "aff_b ?s1 = b1" "aff_w ?s2 = w2" "aff_b ?s2 = b2"
    "aff_w_grad ?s1 = None" "aff_b_grad ?s1 = None" "aff_w_grad ?s2 = None" "aff_b_grad ?s2 = None"
    by (simp_all add: affine_module_def)
  from affine_call_shape [of x n d ?s1 a] assms(1,2,4) st obtain y1 where
    y1: "affine_call ?s1 x = Inr (y1, ?s1\<lparr>aff_x := Some x\<rparr>)" "shape y1 = [n, a]" by auto
  from affine_call_shape [of x n d ?s2 b] assms(1,3,5) st obtain y2 where
    y2: "affine_call ?s2 x = Inr (y2, ?s2\<lparr>aff_x := Some x\<rparr>)" "shape y2 = [n, b]" by auto
  define m1 where "m1 = (affine_module w1 b1)\<lparr>m_state := ?s1\<lparr>aff_x := Some x\<rparr>\<rparr>"
  define m2 where "m2 = (affine_module w2 b2)\<lparr>m_state := ?s2\<lparr>aff_x := Some x\<rparr>\<rparr>"
  have ce: "call_each (par_modules c0) x = Inr ([y1, y2], [m1, m2])"
    using y1(1) y2(1) assms(6)
    by (simp add: apply_call_def m1_def m2_def) (simp add: affine_module_def)
  have ax: "norm_axis (- 1) 2 = Some 1"
    by (simp add: norm_axis_def)
  define y where "y = tabulate [n, a + b]
      (\<lambda>idx. case locate [a, b] (idx ! 1) of (k, r) \<Rightarrow> elem_at ([y1, y2] ! k) (idx[1 := r]))"
  have cat: "np_concatenate [y1, y2] (- 1) = Inr y"
    using y1(2) y2(2) by (simp add: np_concatenate_def norm_axis_def y_def)
  have shy: "shape y = [n, a + b]"
    by (simp add: y_def tabulate_def)
  define c where "c = c0\<lparr>par_modules := [m1, m2], par_backward := Some [y1, y2], par_y := Some y\<rparr>"
  have call: "parallel_call c0 x = Inr (y, c)"
    using ce cat assms(7,8) by (simp add: parallel_call_def c_def)
  have bwd: "\<exists>g c'. parallel_backward c dy = Inr (Array g, c') \<and> shape g = [n, d]"
    if dy: "shape dy = [n, a + b]" for dy
  proof -
    have rank: "length (shape dy) = length (shape y)"
      using dy shy by simp
    from parallel_forward_backward [OF assms(8) call rank] obtain ys ax' where
      ys: "call_each (par_modules c0) x = Inr (ys, par_modules c)"
      and ax': "norm_axis (concat_axis c0) (length (shape y)) = Some ax'"
      and sum: "\<And>gs ns s. length gs = length ys \<Longrightarrow> length ns = length ys \<Longrightarrow>
          (\<forall>i<length ys.
              apply_backward (par_modules c ! i)
                (slice_axis dy ax' (sum_list (take i (map (\<lambda>v. shape v ! ax') ys)))
                   (if Suc i = length ys then shape dy ! ax'
                    else sum_list (take (Suc i) (map (\<lambda>v. shape v ! ax') ys))))
              = Inr (gs ! i, ns ! i)) \<Longrightarrow>
          (\<forall>g\<in>set gs. well_shaped g \<and> shape g = s) \<Longrightarrow>
          parallel_backward c dy
            = Inr (Array \<lparr>shape = s, buf = map (\<lambda>j. \<Sum>g\<leftarrow>gs. buf g ! j) [0..<prod_list s]\<rparr>,
                   c\<lparr>par_modules := ns, par_dy := Some dy\<rparr>)"
      by blast
    have ys_eq: "ys = [y1, y2]"
      using ys ce by simp
    have ax'_eq: "ax' = 1"
      using ax' shy assms(7) by (simp add: norm_axis_def)
    let ?ch1 = "slice_axis dy 1 0 a" and ?ch2 = "slice_axis dy 1 a (a + b)"
    have sh1: "shape ?ch1 = [n, a]" and sh2: "shape ?ch2 = [n, b]"
      using dy by (simp_all add: slice_axis_shape)
    have x1: "aff_x (m_state m1) = Some x" "aff_w (m_state m1) = w1"
      "aff_w_grad (m_state m1) = None" "aff_b_grad (m_state m1) = None"
      and x2: "aff_x (m_state m2) = Some x" "aff_w (m_state m2) = w2"
      "aff_w_grad (m_state m2) = None" "aff_b_grad (m_state m2) = None"
      by (simp_all add: m1_def m2_def affine_module_def)
    from affine_backward_shape [of "m_state m1" x n d a ?ch1] x1 assms(1,2) sh1
    obtain g1 t1 where g1: "affine_backward (m_state m1) ?ch1 = Inr (g1, t1)"
      "shape g1 = [n, d]" "well_shaped g1" by auto
    from affine_backward_shape [of "m_state m2" x n d b ?ch2] x2 assms(1,3) sh2
    obtain g2 t2 where g2: "affine_backward (m_state m2) ?ch2 = Inr (g2, t2)"
      "shape g2 = [n, d]" "well_shaped g2" by auto
    have b1: "apply_backward m1 ?ch1 = Inr (g1, m1\<lparr>m_state := t1\<rparr>)"
      using g1(1) by (simp add: apply_backward_def) (simp add: m1_def affine_module_def)
    have b2: "apply_backward m2 ?ch2 = Inr (g2, m2\<lparr>m_state := t2\<rparr>)"
      using g2(1) by (simp add: apply_backward_def) (simp add: m2_def affine_module_def)
    have each: "\<forall>i<length ys.
        apply_backward (par_modules c ! i)
          (slice_axis dy ax' (sum_list (take i (map (\<lambda>v. shape v ! ax') ys)))
             (if Suc i = length ys then shape dy ! ax'
              else sum_list (take (Suc i) (map (\<lambda>v. shape v ! ax') ys))))
        = Inr ([g1, g2] ! i, [m1\<lparr>m_state := t1\<rparr>, m2\<lparr>m_state := t2\<rparr>] ! i)"
      unfolding ys_eq ax'_eq using b1 b2 y1(2) y2(2) dy
      by (simp add: c_def less_Suc_eq nth_Cons')
    have "parallel_backward c dy
        = Inr (Array \<lparr>shape = [n, d],
                       buf = map (\<lambda>j. \<Sum>g\<leftarrow>[g1, g2]. buf g ! j) [0..<prod_list [n, d]]\<rparr>,
               c\<lparr>par_modules := [m1\<lparr>m_state := t1\<rparr>, m2\<lparr>m_state := t2\<rparr>], par_dy := Some dy\<rparr>)"
      using g1 g2 by (intro sum [OF _ _ each]) (simp_all add: ys_eq)
    then show ?thesis by simp
  qed
  from call shy bwd show ?thesis by blast
qed

text \<open>
  C4. After a call in training mode, the backward of a Parallel container cuts the
  incoming gradient along the concatenation axis at the running sums of the extents
  of the children's outputs, the last piece running to the end of the gradient,
  hands the \<open>i\<close>-th piece to the \<open>i\<close>-th child's backward, and returns the elementwise
  sum of the gradients the children return (for gradients of one shape), leaving the
  children as their backward calls leave them. For two affine children of widths
  \<open>a\<close> and \<open>b\<close> on an input of shape \<open>(n, d)\<close>, concatenated on the last axis, the
  output has shape \<open>(n, a + b)\<close> and backward on a gradient of that shape returns one
  gradient of shape \<open>(n, d)\<close>.
\<close>

theorem parallel_backward_splits_and_sums:
  "(par_training c0 \<and> parallel_call c0 x = Inr (y, c) \<and> length (shape dy) = length (shape y)
      \<longrightarrow> (\<exists>ys ax. call_each (par_modules c0) x = Inr (ys, par_modules c)
             \<and> np_concatenate ys (concat_axis c0) = Inr y
             \<and> norm_axis (concat_axis c0) (length (shape y)) = Some ax
             \<and> (\<forall>gs ns s.
                   length gs = length ys \<and> length ns = length ys
                   \<and> (\<forall>i<length ys.
                         apply_backward (par_modules c ! i)
                           (slice_axis dy ax (sum_list (take i (map (\<lambda>v. shape v ! ax) ys)))
                              (if Suc i = length ys then shape dy ! ax
                               else sum_list (take (Suc i) (map (\<lambda>v. shape v ! ax) ys))))
                         = Inr (gs ! i, ns ! i))
                   \<and> (\<forall>g\<in>set gs. well_shaped g \<and> shape g = s)
                   \<longrightarrow> parallel_backward c dy
                         = Inr (Array \<lparr>shape = s,
                                        buf = map (\<lambda>j. \<Sum>g\<leftarrow>gs. buf g ! j) [0..<prod_list s]\<rparr>,
                                c\<lparr>par_modules := ns, par_dy := Some dy\<rparr>))))
   \<and> (shape x2 = [n, d] \<and> shape w1 = [d, a] \<and> shape w2 = [d, b]
        \<and> (b1 = None \<or> (\<exists>v. b1 = Some v \<and> shape v = [a]))
        \<and> (b2 = None \<or> (\<exists>v. b2 = Some v \<and> shape v = [b]))
        \<and> par_modules p0 = [affine_module w1 b1, affine_module w2 b2]
        \<and> concat_axis p0 = - 1 \<and> par_training p0
      \<longrightarrow> (\<exists>y2 p. parallel_call p0 x2 = Inr (y2, p) \<and> shape y2 = [n, a + b]
             \<and> (\<forall>dy2. shape dy2 = [n, a + b] \<longrightarrow>
                   (\<exists>g p'. parallel_backward p dy2 = Inr (Array g, p') \<and> shape g = [n, d]))))"
proof (intro conjI impI)
  assume "par_training c0 \<and> parallel_call c0 x = Inr (y, c) \<and> length (shape dy) = length (shape y)"
  then have "par_training c0" "parallel_call c0 x = Inr (y, c)"
    "length (shape dy) = length (shape y)"
    by simp_all
  then show "\<exists>ys ax. call_each (par_modules c0) x = Inr (ys, par_modules c)
             \<and> np_concatenate ys (concat_axis c0) = Inr y
             \<and> norm_axis (concat_axis c0) (length (shape y)) = Some ax
             \<and> (\<forall>gs ns s.
                   length gs = length ys \<and> length ns = length ys
                   \<and> (\<forall>i<length ys.
                         apply_backward (par_modules c ! i)
                           (slice_axis dy ax (sum_list (take i (map (\<lambda>v. shape v ! ax) ys)))
                              (if Suc i = length ys then shape dy ! ax
                               else sum_list (take (Suc i) (map (\<lambda>v. shape v ! ax) ys))))
                         = Inr (gs ! i, ns ! i))
                   \<and> (\<forall>g\<in>set gs. well_shaped g \<and> shape g = s)
                   \<longrightarrow> parallel_backward c dy
                         = Inr (Array \<lparr>shape = s,
                                        buf = map (\<lambda>j. \<Sum>g\<leftarrow>gs. buf g ! j) [0..<prod_list s]\<rparr>,
                                c\<lparr>par_modules := ns, par_dy := Some dy\<rparr>))"
    by (rule parallel_forward_backward)
next
  assume h: "shape x2 = [n, d] \<and> shape w1 = [d, a] \<and> shape w2 = [d, b]
        \<and> (b1 = None \<or> (\<exists>v. b1 = Some v \<and> shape v = [a]))
        \<and> (b2 = None \<or> (\<exists>v. b2 = Some v \<and> shape v = [b]))
        \<and> par_modules p0 = [affine_module w1 b1, affine_module w2 b2]
        \<and> concat_axis p0 = - 1 \<and> par_training p0"
  show "\<exists>y2 p. parallel_call p0 x2 = Inr (y2, p) \<and> shape y2 = [n, a + b]
             \<and> (\<forall>dy2. shape dy2 = [n, a + b] \<longrightarrow>
                   (\<exists>g p'. parallel_backward p dy2 = Inr (Array g, p') \<and> shape g = [n, d]))"
    by (rule two_affine_children [of x2 n d w1 a w2 b b1 b2 p0]) (use h in simp_all)
qed

theorem parallel_backward_splits_and_sums_witness:
  "par_training par_example
   \<and> (\<exists>y c. parallel_call par_example \<lparr>shape = [1, 2], buf = [3, 4]\<rparr> = Inr (y, c)
        \<and> shape y = [1, 3]
        \<and> (\<exists>ys ax. call_each (par_modules par_example) \<lparr>shape = [1, 2], buf = [3, 4]\<rparr>
                      = Inr (ys, par_modules c)
              \<and> norm_axis (concat_axis par_example) (length (shape y)) = Some ax)
        \<and> (\<exists>g c'. parallel_backward c \<lparr>shape = [1, 3], buf = [1, 10, 100]\<rparr> = Inr (Array g, c')
              \<and> shape g = [1, 2]))
   \<and> map_sum id fst (ebind (parallel_call par_example \<lparr>shape = [1, 2], buf = [3, 4]\<rparr>)
        (\<lambda>(y, c). map_sum id (\<lambda>(g, c'). (y, g))
                    (parallel_backward c \<lparr>shape = [1, 3], buf = [1, 10, 100]\<rparr>)))
       = Inr \<lparr>shape = [1, 3], buf = [11, 13, 24]\<rparr>
   \<and> map_sum id snd (ebind (parallel_call par_example \<lparr>shape = [1, 2], buf = [3, 4]\<rparr>)
        (\<lambda>(y, c). map_sum id (\<lambda>(g, c'). (y, g))
                    (parallel_backward c \<lparr>shape = [1, 3], buf = [1, 10, 100]\<rparr>)))
       = Inr (Array \<lparr>shape = [1, 2], buf = [11, 102]\<rparr>)"
proof -
  let ?x = "\<lparr>shape = [1, 2], buf = [3, 4 :: real]\<rparr>"
  let ?dy = "\<lparr>shape = [1, 3], buf = [1, 10, 100 :: real]\<rparr>"
  let ?w1 = "\<lparr>shape = [2, 1], buf = [1, 2 :: real]\<rparr>"
  let ?w2 = "\<lparr>shape = [2, 2], buf = [1, 0, 0, 1 :: real]\<rparr>"
  let ?b2 = "Some \<lparr>shape = [2], buf = [10, 20 :: real]\<rparr>"
  have tr: "par_training par_example"
    by (simp add: par_example_def)
  have hyp: "shape ?x = [1, 2] \<and> shape ?w1 = [2, 1] \<and> shape ?w2 = [2, 2]
        \<and> (None = None \<or> (\<exists>v. (None :: real ndarray option) = Some v \<and> shape v = [1]))
        \<and> (?b2 = None \<or> (\<exists>v. ?b2 = Some v \<and> shape v = [2]))
        \<and> par_modules par_example = [affine_module ?w1 None, affine_module ?w2 ?b2]
        \<and> concat_axis par_example = - 1 \<and> par_training par_example"
    by (simp add: par_example_def)
  have affine: "\<exists>y2 p. parallel_call par_example ?x = Inr (y2, p) \<and> shape y2 = [1, 1 + 2]
             \<and> (\<forall>dy2. shape dy2 = [1, 1 + 2] \<longrightarrow>
                   (\<exists>g p'. parallel_backward p dy2 = Inr (Array g, p') \<and> shape g = [1, 2]))"
    by (rule parallel_backward_splits_and_sums
        [where ?x2.0 = ?x and n = 1 and d = 2 and ?w1.0 = ?w1 and a = 1 and ?w2.0 = ?w2 and b = 2
           and ?b1.0 = None and ?b2.0 = ?b2 and ?p0.0 = par_example,
         THEN conjunct2, THEN mp, OF hyp])
  from affine obtain y c where call: "parallel_call par_example ?x = Inr (y, c)"
    and shy: "shape y = [1, 3]"
    and bw: "\<exists>g c'. parallel_backward c ?dy = Inr (Array g, c') \<and> shape g = [1, 2]"
    by auto
  have "length (shape ?dy) = length (shape y)"
    using shy by simp
  with tr call have "par_training par_example \<and> parallel_call par_example ?x = Inr (y, c)
      \<and> length (shape ?dy) = length (shape y)"
    by simp
  from parallel_backward_splits_and_sums
    [of par_example ?x y c ?dy, THEN conjunct1, THEN mp, OF this]
  obtain ys ax where "call_each (par_modules par_example) ?x = Inr (ys, par_modules c)"
    "norm_axis (concat_axis par_example) (length (shape y)) = Some ax"
    by (elim exE conjE) (rule that, assumption+)
  then have part1: "\<exists>ys ax. call_each (par_modules par_example) ?x = Inr (ys, par_modules c)
      \<and> norm_axis (concat_axis par_example) (length (shape y)) = Some ax"
    by blast
  have v1: "map_sum id fst (ebind (parallel_call par_example ?x)
        (\<lambda>(y, c). map_sum id (\<lambda>(g, c'). (y, g)) (parallel_backward c ?dy)))
       = Inr \<lparr>shape = [1, 3], buf = [11, 13, 24]\<rparr>"
    by code_simp
  have v2: "map_sum id snd (ebind (parallel_call par_example ?x)
        (\<lambda>(y, c). map_sum id (\<lambda>(g, c'). (y, g)) (parallel_backward c ?dy)))
       = Inr (Array \<lparr>shape = [1, 2], buf = [11, 102]\<rparr>)"
    by code_simp
  from tr call shy part1 bw v1 v2 show ?thesis
    by blast
qed

end
